theory Spec2Isabelle
  imports Main "HOL-Library.Word"
begin

unbundle bit_operations_syntax

section \<open>Machine integers, memory and faults\<close>

text \<open>
  The driver (\<^verbatim>\<open>kernel/src/misc/ext2.c\<close>) runs on a 32-bit x86 kernel: \<^verbatim>\<open>uint32_t\<close>,
  \<^verbatim>\<open>uint16_t\<close> and \<^verbatim>\<open>uint8_t\<close> are words whose arithmetic wraps, pointers are 32-bit
  addresses, and multi-byte fields are little-endian.

  Memory is byte-addressable, \<open>mem\<close>. The state component \<open>ram\<close> is the address
  space in which the volume lives; \<^verbatim>\<open>device\<close> is an address in it. The source never
  checks a block number against the length of the volume (see the TODO in
  \<^verbatim>\<open>ext2_read_block\<close>), so neither does the model: a block read takes whatever bytes
  \<open>ram\<close> holds at \<^verbatim>\<open>device + block*block_size\<close>. Buffers obtained from \<^verbatim>\<open>kmalloc\<close> and
  buffers of the caller are values of type \<open>mem\<close> of their own, indexed from 0: they
  are taken to be disjoint from the volume.

  What C leaves undefined or what traps on the machine is a value of type \<open>fault\<close>:
  every function that can reach such a point returns \<open>fault + 'a\<close>.
\<close>

type_synonym u8 = "8 word"
type_synonym u16 = "16 word"
type_synonym u32 = "32 word"
type_synonym mem = "u32 \<Rightarrow> u8"

datatype fault =
    DivideByZero      \<comment> \<open>\<^verbatim>\<open>/\<close> or \<^verbatim>\<open>%\<close> by zero\<close>
  | NullPointer       \<comment> \<open>dereference of a NULL \<^verbatim>\<open>superblock\<close>, \<^verbatim>\<open>group_descriptors\<close> or inode\<close>
  | OutOfBounds       \<comment> \<open>access past the end of a \<^verbatim>\<open>kmalloc\<close>'ed buffer or array\<close>
  | UndefinedShift    \<comment> \<open>\<^verbatim>\<open>1024 << n\<close> not representable in \<^verbatim>\<open>int\<close>\<close>

text \<open>\<^verbatim>\<open>memcpy(dst + d, src + s, n)\<close>: the \<open>n\<close> bytes from \<open>src + s\<close> land at \<open>dst + d\<close>.\<close>

definition memcpy :: "mem \<Rightarrow> u32 \<Rightarrow> mem \<Rightarrow> u32 \<Rightarrow> u32 \<Rightarrow> mem" where
  "memcpy dst d src s n = (\<lambda>a. if a - d < n then src (s + (a - d)) else dst a)"

text \<open>Little-endian loads of a \<^verbatim>\<open>uint16_t\<close> and a \<^verbatim>\<open>uint32_t\<close> at an address.\<close>

definition le16 :: "mem \<Rightarrow> u32 \<Rightarrow> u16" where
  "le16 m a = ucast (m a) OR push_bit 8 (ucast (m (a + 1)))"

definition le32 :: "mem \<Rightarrow> u32 \<Rightarrow> u32" where
  "le32 m a = ucast (m a) OR push_bit 8 (ucast (m (a + 1)))
     OR push_bit 16 (ucast (m (a + 2))) OR push_bit 24 (ucast (m (a + 3)))"

section \<open>On-disk structures\<close>

text \<open>
  \<^verbatim>\<open>superblock_t\<close>, \<^verbatim>\<open>group_descriptor_t\<close> and \<^verbatim>\<open>inode_t\<close> are copied out of the volume with
  \<^verbatim>\<open>memcpy\<close> and read through the struct. The records hold the fields the driver reads
  (and \<open>size_upper\<close>, which it declares and never reads), decoded at the offsets the
  struct declarations give them; no field of these structs needs padding. The
  superblock's field \<^verbatim>\<open>block_size\<close> (the exponent) is \<open>sb_block_size\<close> here, since the
  static variable \<^verbatim>\<open>block_size\<close> has that name too.
\<close>

record superblock_t =
  blocks_count :: u32            \<comment> \<open>offset 4\<close>
  sb_block_size :: u32           \<comment> \<open>offset 24\<close>
  blocks_per_group :: u32        \<comment> \<open>offset 32\<close>
  inodes_per_group :: u32        \<comment> \<open>offset 40\<close>
  magic :: u16                   \<comment> \<open>offset 56\<close>
  first_available_block :: u32   \<comment> \<open>offset 84\<close>
  inode_size :: u16              \<comment> \<open>offset 88\<close>

record group_descriptor_t =
  block_bitmap :: u32            \<comment> \<open>offset 0\<close>
  inode_bitmap :: u32            \<comment> \<open>offset 4\<close>
  inode_table :: u32             \<comment> \<open>offset 8\<close>

record inode_t =
  size_lower :: u32              \<comment> \<open>offset 4\<close>
  dbp :: "u32 list"              \<comment> \<open>offset 40, twelve entries\<close>
  sibp :: u32                    \<comment> \<open>offset 88\<close>
  dibp :: u32                    \<comment> \<open>offset 92\<close>
  tibp :: u32                    \<comment> \<open>offset 96\<close>
  size_upper :: u32              \<comment> \<open>offset 108\<close>

definition sizeof_superblock_t :: u32 where
  "sizeof_superblock_t = 236"

definition sizeof_group_descriptor_t :: u32 where
  "sizeof_group_descriptor_t = 32"

definition sizeof_inode_t :: u32 where
  "sizeof_inode_t = 128"

definition read_superblock :: "mem \<Rightarrow> u32 \<Rightarrow> superblock_t" where
  "read_superblock m a =
     \<lparr> blocks_count = le32 m (a + 4),
       sb_block_size = le32 m (a + 24),
       blocks_per_group = le32 m (a + 32),
       inodes_per_group = le32 m (a + 40),
       magic = le16 m (a + 56),
       first_available_block = le32 m (a + 84),
       inode_size = le16 m (a + 88) \<rparr>"

definition read_group_descriptor :: "mem \<Rightarrow> u32 \<Rightarrow> group_descriptor_t" where
  "read_group_descriptor m a =
     \<lparr> block_bitmap = le32 m a,
       inode_bitmap = le32 m (a + 4),
       inode_table = le32 m (a + 8) \<rparr>"

definition read_inode :: "mem \<Rightarrow> u32 \<Rightarrow> inode_t" where
  "read_inode m a =
     \<lparr> size_lower = le32 m (a + 4),
       dbp = map (\<lambda>i. le32 m (a + 40 + 4 * of_nat i)) [0..<12],
       sibp = le32 m (a + 88),
       dibp = le32 m (a + 92),
       tibp = le32 m (a + 96),
       size_upper = le32 m (a + 108) \<rparr>"

section \<open>The driver's state\<close>

text \<open>
  The five static variables of the driver, and the memory the volume lives in.
  A NULL \<^verbatim>\<open>superblock\<close> or \<^verbatim>\<open>group_descriptors\<close> is \<open>None\<close>; \<^verbatim>\<open>group_descriptors\<close> is the
  \<^verbatim>\<open>kmalloc\<close>'ed array, a list of the descriptors that fit in its size.
\<close>

record ext2_state =
  ram :: mem
  device :: u32
  num_block_groups :: u32
  block_size :: u32
  superblock :: "superblock_t option"
  group_descriptors :: "group_descriptor_t list option"

text \<open>\<^verbatim>\<open>ext2_read_block(block, buf)\<close>: the buffer after the call.\<close>

definition ext2_read_block :: "ext2_state \<Rightarrow> u32 \<Rightarrow> mem \<Rightarrow> mem" where
  "ext2_read_block s block buf =
     memcpy buf 0 (ram s) (device s + block * block_size s) (block_size s)"

text \<open>\<^verbatim>\<open>ext2_write_block(block, buf)\<close>: the state after the call.\<close>

definition ext2_write_block :: "ext2_state \<Rightarrow> u32 \<Rightarrow> mem \<Rightarrow> ext2_state" where
  "ext2_write_block s block buf =
     s\<lparr>ram := memcpy (ram s) (device s + block * block_size s) buf 0 (block_size s)\<rparr>"

section \<open>Block allocator\<close>

text \<open>
  The loop of \<^verbatim>\<open>ext2_allocate_block\<close>, with its local variables \<^verbatim>\<open>tmp\<close>, \<^verbatim>\<open>bitmap\<close> and
  \<^verbatim>\<open>j\<close> as arguments. \<^verbatim>\<open>j % blocks_per_group\<close> cannot divide by zero: the loop condition
  \<^verbatim>\<open>j < blocks_per_group*num_block_groups\<close> fails when \<^verbatim>\<open>blocks_per_group\<close> is 0.
  \<^verbatim>\<open>tmp\<close> has \<^verbatim>\<open>block_size\<close> bytes and \<^verbatim>\<open>group_descriptors\<close> has the entries of its list:
  an index past either is \<open>OutOfBounds\<close>. The \<^verbatim>\<open>printf\<close> calls are not modelled.
\<close>

function ext2_allocate_block_loop ::
  "ext2_state \<Rightarrow> superblock_t \<Rightarrow> mem \<Rightarrow> u32 \<Rightarrow> u32 \<Rightarrow> fault + (u32 \<times> ext2_state)" where
  "ext2_allocate_block_loop s sb tmp bitmap j =
     (if j < blocks_per_group sb * num_block_groups s then
        (case (if j mod blocks_per_group sb = 0 \<or> j = first_available_block sb then
                 (case group_descriptors s of
                    None \<Rightarrow> Inl NullPointer
                  | Some gds \<Rightarrow>
                      if unat (j div blocks_per_group sb) < length gds
                      then Inr (block_bitmap (gds ! unat (j div blocks_per_group sb)))
                      else Inl OutOfBounds)
               else Inr bitmap) of
           Inl e \<Rightarrow> Inl e
         | Inr bitmap1 \<Rightarrow>
             if 8 * block_size s = 0 then Inl DivideByZero
             else
               let reload = (j mod (8 * block_size s) = 0 \<or> j = first_available_block sb);
                   tmp1 = (if reload then ext2_read_block s bitmap1 tmp else tmp);
                   bitmap2 = (if reload then bitmap1 + 1 else bitmap1)
               in if block_size s \<le> j div 8 then Inl OutOfBounds
                  else if tmp1 (j div 8) AND push_bit (unat (j mod 8)) 1 = 0 then
                    Inr (j, ext2_write_block s (bitmap2 - 1)
                              (tmp1(j div 8 := tmp1 (j div 8) OR push_bit (unat (j mod 8)) 1)))
                  else ext2_allocate_block_loop s sb tmp1 bitmap2 (j + 1))
      else Inr (0, s))"
  by pat_completeness auto
termination
proof (relation "measure (\<lambda>(s, sb, tmp, bitmap, j).
        unat (blocks_per_group sb * num_block_groups s) - unat j)", goal_cases)
  case 1
  show ?case by simp
next
  case (2 s sb tmp bitmap j)
  from \<open>j < blocks_per_group sb * num_block_groups s\<close>
  have "unat (blocks_per_group sb * num_block_groups s) - unat (j + 1)
      < unat (blocks_per_group sb * num_block_groups s) - unat j"
    by unat_arith
  then show ?case by simp
qed

declare ext2_allocate_block_loop.simps [simp del]

text \<open>
  \<^verbatim>\<open>ext2_allocate_block()\<close>: the block number returned and the state after the call.
  \<^verbatim>\<open>tmp\<close> and \<^verbatim>\<open>bitmap\<close> start uninitialised; the first iteration has
  \<^verbatim>\<open>j == first_available_block\<close> and assigns both before it reads either, so the values
  they start with here are never read.
\<close>

definition ext2_allocate_block :: "ext2_state \<Rightarrow> fault + (u32 \<times> ext2_state)" where
  "ext2_allocate_block s =
     (case superblock s of
        None \<Rightarrow> Inl NullPointer
      | Some sb \<Rightarrow> ext2_allocate_block_loop s sb (\<lambda>_. 0) 0 (first_available_block sb))"

section \<open>Mount\<close>

text \<open>
  Modelled from the spec: \<^verbatim>\<open>divide_up\<close> is declared in \<^verbatim>\<open>kernel/sys.h\<close>, which is not among
  the sources. The spec gives \<^verbatim>\<open>num_block_groups = ceil(blocks_count / blocks_per_group)\<close>;
  the caller below checks the divisor.
\<close>

definition divide_up :: "u32 \<Rightarrow> u32 \<Rightarrow> u32" where
  "divide_up n d = (if n mod d = 0 then n div d else n div d + 1)"

text \<open>
  \<^verbatim>\<open>parse_superblock(data)\<close>: the pointer returned (\<open>None\<close> for NULL) and the state
  after the call. \<^verbatim>\<open>EXT2_MAGIC\<close> is defined in \<^verbatim>\<open>kernel/ext2.h\<close>, which is not among
  the sources: it is a parameter. \<^verbatim>\<open>1024 << n\<close> shifts an \<^verbatim>\<open>int\<close>: it is undefined from
  \<open>n = 21\<close> on.
\<close>

definition parse_superblock ::
  "u16 \<Rightarrow> ext2_state \<Rightarrow> u32 \<Rightarrow> fault + (superblock_t option \<times> ext2_state)" where
  "parse_superblock EXT2_MAGIC s data =
     (let sb = read_superblock (ram s) data in
      if magic sb \<noteq> EXT2_MAGIC then Inr (None, s)
      else if blocks_per_group sb = 0 then Inl DivideByZero
      else if 21 \<le> sb_block_size sb then Inl UndefinedShift
      else Inr (Some sb,
             s\<lparr>num_block_groups := divide_up (blocks_count sb) (blocks_per_group sb),
               block_size := push_bit (unat (sb_block_size sb)) 1024\<rparr>))"

text \<open>
  \<^verbatim>\<open>parse_group_descriptors(data)\<close>: the array has \<^verbatim>\<open>num_block_groups * 32\<close> bytes
  (a \<^verbatim>\<open>uint32_t\<close> product).
\<close>

definition parse_group_descriptors :: "ext2_state \<Rightarrow> u32 \<Rightarrow> group_descriptor_t list" where
  "parse_group_descriptors s data =
     map (\<lambda>i. read_group_descriptor (ram s) (data + sizeof_group_descriptor_t * of_nat i))
       [0..<unat (num_block_groups s * sizeof_group_descriptor_t) div 32]"

text \<open>The statement \<^verbatim>\<open>ext2_allocate_block();\<close>, its result dropped.\<close>

definition call_allocate_block :: "fault + ext2_state \<Rightarrow> fault + ext2_state" where
  "call_allocate_block r =
     (case r of
        Inl e \<Rightarrow> Inl e
      | Inr s \<Rightarrow>
          (case ext2_allocate_block s of
             Inl e \<Rightarrow> Inl e
           | Inr (j, s') \<Rightarrow> Inr s'))"

text \<open>
  \<^verbatim>\<open>init_ext2(data, len)\<close>: the state after the call. The second \<^verbatim>\<open>printf\<close> reads
  \<^verbatim>\<open>group_descriptors[0]\<close>, which is past the end of an empty array.
\<close>

definition init_ext2 :: "u16 \<Rightarrow> ext2_state \<Rightarrow> u32 \<Rightarrow> u32 \<Rightarrow> fault + ext2_state" where
  "init_ext2 EXT2_MAGIC s data len =
     (if len < 1024 + sizeof_superblock_t then Inr s
      else
        (case parse_superblock EXT2_MAGIC (s\<lparr>device := data\<rparr>) (data + 1024) of
           Inl e \<Rightarrow> Inl e
         | Inr (sb, s1) \<Rightarrow>
             (case sb of
                None \<Rightarrow> Inr (s1\<lparr>superblock := None\<rparr>)
              | Some v \<Rightarrow>
                  let s2 = s1\<lparr>superblock := Some v\<rparr>;
                      gds = parse_group_descriptors s2 (data + 2048);
                      s3 = s2\<lparr>group_descriptors := Some gds\<rparr>
                  in if gds = [] then Inl OutOfBounds
                     else call_allocate_block (call_allocate_block (call_allocate_block
                           (call_allocate_block (call_allocate_block (call_allocate_block
                             (Inr s3)))))))))"

section \<open>Inode lookup\<close>

text \<open>Sequencing of a step that can fault: the first fault ends the call.\<close>

definition on_ok :: "fault + 'a \<Rightarrow> ('a \<Rightarrow> fault + 'b) \<Rightarrow> fault + 'b" where
  "on_ok r f = (case r of Inl e \<Rightarrow> Inl e | Inr x \<Rightarrow> f x)"

text \<open>
  \<^verbatim>\<open>ext2_get_inode(inode)\<close>: \<open>None\<close> is the NULL it returns for inode 0. The inode is
  copied out of the \<^verbatim>\<open>block_size\<close> bytes of \<^verbatim>\<open>tmp\<close> (every byte of which the block read
  has set) into \<^verbatim>\<open>inode_size\<close> fresh bytes, which are then read as an \<^verbatim>\<open>inode_t\<close>.
\<close>

definition ext2_get_inode :: "ext2_state \<Rightarrow> u32 \<Rightarrow> fault + inode_t option" where
  "ext2_get_inode s inode =
     (if inode = 0 then Inr None
      else
        (case superblock s of
           None \<Rightarrow> Inl NullPointer
         | Some sb \<Rightarrow>
             if inodes_per_group sb = 0 then Inl DivideByZero
             else
               (case group_descriptors s of
                  None \<Rightarrow> Inl NullPointer
                | Some gds \<Rightarrow>
                    let group = (inode - 1) div inodes_per_group sb in
                    if length gds \<le> unat group then Inl OutOfBounds
                    else if block_size s = 0 then Inl DivideByZero
                    else if inode_size sb = 0 then Inl DivideByZero
                    else
                      let table_block = inode_table (gds ! unat group);
                          block_offset = ((inode - 1) * ucast (inode_size sb)) div block_size s;
                          index_in_block = (inode - 1)
                            - block_offset * (block_size s div ucast (inode_size sb));
                          tmp = ext2_read_block s (table_block + block_offset) (\<lambda>a. 0);
                          src = index_in_block * ucast (inode_size sb)
                      in if unat (block_size s) < unat src + unat (inode_size sb)
                         then Inl OutOfBounds
                         else if ucast (inode_size sb) < sizeof_inode_t then Inl OutOfBounds
                         else Inr (Some (read_inode tmp src)))))"

section \<open>Block address translation\<close>

text \<open>
  What a call of \<^verbatim>\<open>ext2_read_inode_block\<close> does: the caller's buffer after the call,
  the arguments of its \<^verbatim>\<open>ext2_read_block\<close> calls in order, and what it prints.
\<close>

record block_access =
  buffer :: mem
  blocks_read :: "u32 list"
  printed :: "string list"

text \<open>\<^verbatim>\<open>tmp[k]\<close> for \<^verbatim>\<open>uint32_t* tmp = kmalloc(block_size)\<close>.\<close>

definition tmp_at :: "ext2_state \<Rightarrow> mem \<Rightarrow> u32 \<Rightarrow> fault + u32" where
  "tmp_at s tmp k =
     (if k < block_size s div 4 then Inr (le32 tmp (4 * k)) else Inl OutOfBounds)"

text \<open>
  \<^verbatim>\<open>ext2_read_inode_block(inode, n, buf)\<close>. The divisions by \<^verbatim>\<open>p\<close> and \<^verbatim>\<open>p*p\<close> are
  reached only where the divisor is not 0: with \<^verbatim>\<open>p*p == 0\<close> the second and the third
  range have the bound of the one before them. \<^verbatim>\<open>tmp\<close> is fresh in each branch, and
  the first block read sets all of it.
\<close>

definition ext2_read_inode_block ::
  "ext2_state \<Rightarrow> inode_t \<Rightarrow> u32 \<Rightarrow> mem \<Rightarrow> fault + block_access" where
  "ext2_read_inode_block s inode n buf =
     (let p = block_size s div 4 in
      if n < 12 then
        Inr \<lparr> buffer = ext2_read_block s (dbp inode ! unat n) buf,
              blocks_read = [dbp inode ! unat n], printed = [] \<rparr>
      else if n < 12 + p then
        (let relblock = n - 12;
             tmp = ext2_read_block s (sibp inode) (\<lambda>a. 0)
         in on_ok (tmp_at s tmp relblock) (\<lambda>b1.
              Inr \<lparr> buffer = ext2_read_block s b1 buf,
                    blocks_read = [sibp inode, b1], printed = [] \<rparr>))
      else if n < 12 + p + p * p then
        (let relblock = n - 12 - p;
             offset_a = relblock div p;
             offset_b = relblock mod p;
             tmp = ext2_read_block s (dibp inode) (\<lambda>a. 0)
         in on_ok (tmp_at s tmp offset_a) (\<lambda>b1.
              let tmp1 = ext2_read_block s b1 tmp
              in on_ok (tmp_at s tmp1 offset_b) (\<lambda>b2.
                   Inr \<lparr> buffer = ext2_read_block s b2 buf,
                         blocks_read = [dibp inode, b1, b2], printed = [] \<rparr>)))
      else if n < 12 + p + p * p + p * p * p then
        (let relblock = n - 12 - p - p * p;
             offset_a = relblock div (p * p);
             offset_b = relblock mod (p * p);
             offset_c = relblock mod p;
             tmp = ext2_read_block s (tibp inode) (\<lambda>a. 0)
         in on_ok (tmp_at s tmp offset_a) (\<lambda>b1.
              let tmp1 = ext2_read_block s b1 tmp
              in on_ok (tmp_at s tmp1 offset_b) (\<lambda>b2.
                   let tmp2 = ext2_read_block s b2 tmp1
                   in on_ok (tmp_at s tmp2 offset_c) (\<lambda>b3.
                        Inr \<lparr> buffer = buf,
                              blocks_read = [tibp inode, b1, b2, b3], printed = [] \<rparr>))))
      else
        Inr \<lparr> buffer = buf, blocks_read = [],
              printed = [''[EXT2] Invalid inode block''] \<rparr>)"

section \<open>File reader\<close>

text \<open>
  The \<^verbatim>\<open>for\<close> loop of \<^verbatim>\<open>ext2_read\<close>, with \<^verbatim>\<open>tmp\<close>, \<^verbatim>\<open>buf\<close> and \<^verbatim>\<open>block_no\<close> as arguments:
  the two buffers after the loop.
\<close>

function ext2_read_loop ::
  "ext2_state \<Rightarrow> inode_t \<Rightarrow> u32 \<Rightarrow> u32 \<Rightarrow> u32 \<Rightarrow> mem \<Rightarrow> mem \<Rightarrow> u32 \<Rightarrow> fault + (mem \<times> mem)" where
  "ext2_read_loop s inode start_block end_block start_offset tmp buf block_no =
     (if block_no < end_block then
        (if block_no = start_block then
           (case ext2_read_inode_block s inode start_block tmp of
              Inl e \<Rightarrow> Inl e
            | Inr r \<Rightarrow>
                ext2_read_loop s inode start_block end_block start_offset (buffer r)
                  (memcpy buf 0 (buffer r) start_offset (block_size s - start_offset))
                  (block_no + 1))
         else
           (case ext2_read_inode_block s inode block_no tmp of
              Inl e \<Rightarrow> Inl e
            | Inr r \<Rightarrow>
                ext2_read_loop s inode start_block end_block start_offset (buffer r)
                  (memcpy buf
                     (start_offset + (block_no - start_block) * block_size s - start_offset)
                     (buffer r) 0 (block_size s))
                  (block_no + 1)))
      else Inr (tmp, buf))"
  by pat_completeness auto
termination
proof (relation "measure (\<lambda>(s, inode, start_block, end_block, start_offset, tmp, buf, block_no).
        unat end_block - unat block_no)", goal_cases)
  case 1
  show ?case by simp
next
  case (2 s inode start_block end_block start_offset tmp buf block_no)
  from \<open>block_no < end_block\<close>
  have "unat end_block - unat (block_no + 1) < unat end_block - unat block_no"
    by unat_arith
  then show ?case by simp
next
  case (3 s inode start_block end_block start_offset tmp buf block_no)
  from \<open>block_no < end_block\<close>
  have "unat end_block - unat (block_no + 1) < unat end_block - unat block_no"
    by unat_arith
  then show ?case by simp
qed

declare ext2_read_loop.simps [simp del]

text \<open>
  The body of \<^verbatim>\<open>ext2_read\<close> from the inode on. \<open>tmp0\<close> is what the fresh \<^verbatim>\<open>tmp\<close> holds:
  a call of \<^verbatim>\<open>ext2_read_inode_block\<close> that does not write its buffer leaves it to be
  copied to the caller.
\<close>

definition ext2_read_inode ::
  "ext2_state \<Rightarrow> mem \<Rightarrow> inode_t \<Rightarrow> u32 \<Rightarrow> mem \<Rightarrow> u32 \<Rightarrow> fault + (u32 \<times> mem)" where
  "ext2_read_inode s tmp0 inode offset buf size' =
     (let fsize = size_lower inode in
      if size' = 0 \<or> fsize = 0 \<or> fsize \<le> offset then Inr (0, buf)
      else
        let end' = (if fsize < offset + size' then fsize else offset + size') in
        if block_size s = 0 then Inl DivideByZero
        else
          let start_block = offset div block_size s;
              end_block = end' div block_size s;
              start_offset = offset mod block_size s;
              end_offset = end' mod block_size s;
              bytes_read = end' - offset
          in if start_block = end_block then
               on_ok (ext2_read_inode_block s inode start_block tmp0) (\<lambda>r.
                 Inr (bytes_read, memcpy buf 0 (buffer r) start_offset bytes_read))
             else
               on_ok (ext2_read_loop s inode start_block end_block start_offset tmp0 buf
                        start_block) (\<lambda>(tmp, buf1).
                 if end_offset = 0 then Inr (bytes_read, buf1)
                 else
                   on_ok (ext2_read_inode_block s inode end_block tmp) (\<lambda>r.
                     Inr (bytes_read,
                          memcpy buf1 ((end_block - start_block) * block_size s - start_offset)
                            (buffer r) 0 end_offset))))"

text \<open>
  \<^verbatim>\<open>ext2_read(inode, offset, buf, size)\<close>: the number returned and the caller's buffer
  after the call.
\<close>

definition ext2_read ::
  "ext2_state \<Rightarrow> mem \<Rightarrow> u32 \<Rightarrow> u32 \<Rightarrow> mem \<Rightarrow> u32 \<Rightarrow> fault + (u32 \<times> mem)" where
  "ext2_read s tmp0 inode offset buf size' =
     on_ok (ext2_get_inode s inode) (\<lambda>r.
       case r of
         None \<Rightarrow> Inr (0, buf)
       | Some i \<Rightarrow> ext2_read_inode s tmp0 i offset buf size')"

section \<open>Directory iterator\<close>

text \<open>
  Modelled from the spec: \<^verbatim>\<open>ext2_directory_entry_t\<close> is declared in \<^verbatim>\<open>kernel/ext2.h\<close>,
  which is not among the sources. The spec lays an entry out as the inode number
  (4 bytes), the record length (2 bytes), the name length (1 byte), the type tag
  (1 byte) and then the name: a header of 8 bytes.
\<close>

definition sizeof_ext2_directory_entry_t :: u32 where
  "sizeof_ext2_directory_entry_t = 8"


definition entry_size :: "mem \<Rightarrow> u32 \<Rightarrow> u16" where
  "entry_size m e = le16 m (e + 4)"



text \<open>
  \<^verbatim>\<open>ext2_readdir(inode, offset)\<close>: \<open>None\<close> is NULL, \<open>Some entry\<close> the buffer returned.
  \<open>fresh k\<close> is what the \<open>k\<close>-th buffer of the call holds before it is written:
  \<^verbatim>\<open>ent\<close>, the \<^verbatim>\<open>tmp\<close> of the first read, \<^verbatim>\<open>entry\<close>, the \<^verbatim>\<open>tmp\<close> of the second read.
\<close>

definition ext2_readdir ::
  "ext2_state \<Rightarrow> (nat \<Rightarrow> mem) \<Rightarrow> u32 \<Rightarrow> u32 \<Rightarrow> fault + mem option" where
  "ext2_readdir s fresh inode offset =
     on_ok (ext2_read s (fresh 1) inode offset (fresh 0) sizeof_ext2_directory_entry_t)
       (\<lambda>(read, ent).
          if read = 0 then Inr None
          else
            on_ok (ext2_read s (fresh 3) inode offset (fresh 2) (ucast (entry_size ent 0)))
              (\<lambda>(read2, entry). if read2 = 0 then Inr None else Inr (Some entry)))"

section \<open>Path resolver\<close>




section \<open>Measures used by the properties\<close>

text \<open>
  The levels of indirection of a translation: the block reads before the last one.
\<close>

definition hops :: "block_access \<Rightarrow> nat" where
  "hops r = length (blocks_read r) - 1"



section \<open>The block bitmap as the properties see it\<close>

text \<open>
  Bit \<open>j\<close> of the bitmap stored at address \<open>base\<close> of memory \<open>m\<close> (1 is allocated), and
  the memory with that bit set.
\<close>

definition bitmap_bit :: "mem \<Rightarrow> u32 \<Rightarrow> u32 \<Rightarrow> bool" where
  "bitmap_bit m base j = bit (m (base + j div 8)) (unat (j mod 8))"

definition mark :: "mem \<Rightarrow> u32 \<Rightarrow> u32 \<Rightarrow> mem" where
  "mark m base j = m(base + j div 8 := m (base + j div 8) OR push_bit (unat (j mod 8)) 1)"

text \<open>
  The free blocks of the first group that the scan reaches: those from
  \<^verbatim>\<open>first_available_block\<close> up to \<^verbatim>\<open>blocks_per_group\<close> whose bit is clear.
\<close>

definition free_blocks :: "mem \<Rightarrow> u32 \<Rightarrow> superblock_t \<Rightarrow> u32 set" where
  "free_blocks m base sb =
     {j. first_available_block sb \<le> j \<and> j < blocks_per_group sb \<and> \<not> bitmap_bit m base j}"

text \<open>
  A mounted volume whose groups have a bitmap that fits in one block
  (\<^verbatim>\<open>blocks_per_group \<le> 8 * block_size\<close>), with at least one group, the products
  \<^verbatim>\<open>8 * block_size\<close> and \<^verbatim>\<open>blocks_per_group * num_block_groups\<close> not wrapping.
\<close>

definition bitmap_fits :: "ext2_state \<Rightarrow> superblock_t \<Rightarrow> group_descriptor_t list \<Rightarrow> bool" where
  "bitmap_fits s sb gds =
     (superblock s = Some sb \<and> group_descriptors s = Some gds \<and> gds \<noteq> []
      \<and> num_block_groups s \<noteq> 0
      \<and> unat (blocks_per_group sb) * unat (num_block_groups s) < 2 ^ 32
      \<and> unat (blocks_per_group sb) \<le> 8 * unat (block_size s)
      \<and> 8 * unat (block_size s) < 2 ^ 32)"

section \<open>Example states\<close>

text \<open>A driver that has mounted nothing: the statics as C initialises them.\<close>

definition unmounted :: ext2_state where
  "unmounted =
     \<lparr> ram = (\<lambda>a. 0), device = 0, num_block_groups = 0, block_size = 0,
       superblock = None, group_descriptors = None \<rparr>"

text \<open>
  A driver with a volume mounted at address 0 (the statics only; the memory is
  blank), for showing what a second, failing mount overwrites.
\<close>

definition mounted_blank :: ext2_state where
  "mounted_blank =
     \<lparr> ram = (\<lambda>a. 0), device = 0, num_block_groups = 1, block_size = 1024,
       superblock = Some \<lparr> blocks_count = 64, sb_block_size = 0, blocks_per_group = 8192,
         inodes_per_group = 16, magic = 0xEF53, first_available_block = 11,
         inode_size = 128 \<rparr>,
       group_descriptors = Some [\<lparr> block_bitmap = 3, inode_bitmap = 4, inode_table = 5 \<rparr>] \<rparr>"

text \<open>The same statics with a block size of 8192 (exponent 3).\<close>

definition blocks_8k :: ext2_state where
  "blocks_8k =
     \<lparr> ram = (\<lambda>a. 0), device = 0, num_block_groups = 1, block_size = 8192,
       superblock = Some \<lparr> blocks_count = 64, sb_block_size = 3, blocks_per_group = 8192,
         inodes_per_group = 16, magic = 0xEF53, first_available_block = 11,
         inode_size = 128 \<rparr>,
       group_descriptors = Some [\<lparr> block_bitmap = 3, inode_bitmap = 4, inode_table = 5 \<rparr>] \<rparr>"

text \<open>An inode with no blocks.\<close>

definition blank_inode :: inode_t where
  "blank_inode = \<lparr> size_lower = 0, dbp = replicate 12 0, sibp = 0, dibp = 0, tibp = 0,
     size_upper = 0 \<rparr>"

text \<open>
  A volume of 64 blocks of 1024 bytes at address \<open>0x100000\<close>, given by the bytes that
  are not 0: the superblock in block 1, one group descriptor in block 2, the block
  bitmap in block 3 (blocks 0 to 15 in use), the inode table in blocks 5 and 6, the
  root directory (inode 2, 1024 bytes) in block 7 with the entries \<^verbatim>\<open>.\<close>, \<^verbatim>\<open>f\<close> and
  \<^verbatim>\<open>g\<close> of 12 bytes each, a zero entry after them, and the bytes 12, 0 at its very
  end. The file \<^verbatim>\<open>f\<close> (inode 3) has 67384320 bytes: its first three blocks are
  blocks 8, 9 and 10, filled with \<open>0xA8\<close>, \<open>0xA9\<close> and \<open>0xAA\<close>; its triple-indirect
  pointer is block 11, whose first pointer is block 12, whose first pointer is
  block 13, whose first pointer is block 14, filled with \<open>0xDD\<close>. The file \<^verbatim>\<open>g\<close>
  (inode 4) has \<^verbatim>\<open>size_lower = 16\<close> and \<^verbatim>\<open>size_upper = 1\<close>, a size of \<open>2\<^sup>3\<^sup>2 + 16\<close> bytes,
  and block 8 as its first block.
\<close>

definition vol_bytes :: "(u32 \<times> u8) list" where
  "vol_bytes =
     [ (1024 + 4, 64),
       (1024 + 33, 0x20),
       (1024 + 40, 16),
       (1024 + 56, 0x53), (1024 + 57, 0xEF),
       (1024 + 84, 11),
       (1024 + 88, 128),
       (2048 + 0, 3), (2048 + 4, 4), (2048 + 8, 5),
       (3072 + 0, 0xFF), (3072 + 1, 0xFF),
       (5120 + 128 + 5, 0x04), (5120 + 128 + 40, 7),
       (5120 + 256 + 5, 0x34), (5120 + 256 + 6, 0x04), (5120 + 256 + 7, 0x04),
       (5120 + 256 + 40, 8), (5120 + 256 + 44, 9), (5120 + 256 + 48, 10),
       (5120 + 256 + 96, 11),
       (5120 + 384 + 4, 16), (5120 + 384 + 40, 8), (5120 + 384 + 108, 1),
       (7168 + 0, 2), (7168 + 4, 12), (7168 + 6, 1), (7168 + 7, 2), (7168 + 8, 0x2E),
       (7168 + 12, 3), (7168 + 16, 12), (7168 + 18, 1), (7168 + 19, 1), (7168 + 20, 0x66),
       (7168 + 24, 4), (7168 + 28, 12), (7168 + 30, 1), (7168 + 31, 1), (7168 + 32, 0x67),
       (7168 + 1022, 12),
       (11264, 12), (12288, 13), (13312, 14) ]"

definition vol_ram :: mem where
  "vol_ram a =
     (let off = a - 0x100000 in
      case map_of vol_bytes off of
        Some b \<Rightarrow> b
      | None \<Rightarrow>
          if off div 1024 = 8 then 0xA8
          else if off div 1024 = 9 then 0xA9
          else if off div 1024 = 10 then 0xAA
          else if off div 1024 = 14 then 0xDD
          else 0)"

text \<open>
  Its superblock, the driver with that volume mounted, and the inode of the file \<^verbatim>\<open>f\<close>.
\<close>

definition vol_superblock :: superblock_t where
  "vol_superblock = \<lparr> blocks_count = 64, sb_block_size = 0, blocks_per_group = 8192,
         inodes_per_group = 16, magic = 0xEF53, first_available_block = 11,
         inode_size = 128 \<rparr>"

definition vol :: ext2_state where
  "vol =
     \<lparr> ram = vol_ram, device = 0x100000, num_block_groups = 1, block_size = 1024,
       superblock = Some vol_superblock,
       group_descriptors = Some [\<lparr> block_bitmap = 3, inode_bitmap = 4, inode_table = 5 \<rparr>] \<rparr>"

definition vol_file :: inode_t where
  "vol_file = \<lparr> size_lower = 0x04043400, dbp = [8, 9, 10, 0, 0, 0, 0, 0, 0, 0, 0, 0],
     sibp = 0, dibp = 0, tibp = 11, size_upper = 0 \<rparr>"

text \<open>The inodes of the root directory and of the file \<^verbatim>\<open>g\<close>.\<close>

definition vol_root :: inode_t where
  "vol_root = \<lparr> size_lower = 1024, dbp = [7, 0, 0, 0, 0, 0, 0, 0, 0, 0, 0, 0],
     sibp = 0, dibp = 0, tibp = 0, size_upper = 0 \<rparr>"

definition vol_big :: inode_t where
  "vol_big = \<lparr> size_lower = 16, dbp = [8, 0, 0, 0, 0, 0, 0, 0, 0, 0, 0, 0],
     sibp = 0, dibp = 0, tibp = 0, size_upper = 1 \<rparr>"

section \<open>The claims' reference for file contents\<close>

text \<open>
  The byte of a file at position \<open>pos\<close>, in the words of the claim on multi-block
  reads: the byte at \<open>pos mod block_size\<close> of the file's block
  \<open>pos div block_size\<close>, the blocks being concatenated in order.
\<close>

definition spec_file_byte :: "ext2_state \<Rightarrow> inode_t \<Rightarrow> u32 \<Rightarrow> u8" where
  "spec_file_byte s i pos =
     (case ext2_read_inode_block s i (pos div block_size s) (\<lambda>a. 0) of
        Inl e \<Rightarrow> 0
      | Inr r \<Rightarrow> buffer r (pos mod block_size s))"

text \<open>
  A mounted volume of two groups of 16 blocks (block size 1024) at address
  \<open>0x100000\<close>: the bitmap of group 0 is block 3 and has the bits 0 to 15 set, the
  bitmap of group 1 is block 20 and has the bits of the blocks 20 to 22 set (bits
  4 to 6); all other bytes are 0.
\<close>

definition small_groups_ram :: mem where
  "small_groups_ram a =
     (if a = 0x100000 + 3072 \<or> a = 0x100000 + 3073 then 0xFF
      else if a = 0x100000 + 20480 then 0x70
      else 0)"

definition small_groups :: ext2_state where
  "small_groups =
     \<lparr> ram = small_groups_ram, device = 0x100000, num_block_groups = 2, block_size = 1024,
       superblock = Some \<lparr> blocks_count = 32, sb_block_size = 0, blocks_per_group = 16,
         inodes_per_group = 16, magic = 0xEF53, first_available_block = 11,
         inode_size = 128 \<rparr>,
       group_descriptors = Some [\<lparr> block_bitmap = 3, inode_bitmap = 4, inode_table = 5 \<rparr>,
         \<lparr> block_bitmap = 20, inode_bitmap = 21, inode_table = 22 \<rparr>] \<rparr>"

section \<open>Block address translation: the branch taken\<close>

lemma word_succ_unat: "(j::u32) < b \<Longrightarrow> unat (j + 1) = Suc (unat j)"
  by unat_arith

lemma unat_mult_le: "unat ((a::u32) * b) \<le> unat a * unat b"
  by (simp add: unat_word_ariths)

lemma div_lt_of_lt_mult: "(r::u32) < q * p \<Longrightarrow> r div q < p"
proof -
  assume a: "r < q * p"
  have "unat r < unat (q * p)" using a by (simp add: word_less_nat_alt)
  also have "\<dots> \<le> unat q * unat p" by (rule unat_mult_le)
  finally have "unat r < unat q * unat p" .
  then have "unat r div unat q < unat p"
    by (simp add: less_mult_imp_div_less mult.commute)
  then show ?thesis by (simp add: word_less_nat_alt unat_div)
qed

lemma mod_lt: "(p::u32) \<noteq> 0 \<Longrightarrow> r mod p < p"
  by (simp add: word_less_nat_alt unat_mod unat_gt_0)

lemma p_bound: "unat ((b::u32) div 4) < 2 ^ 30"
  using unsigned_less[of b, where ?'a=nat] by (simp add: unat_div)

lemma single_rel: "\<not> n < 12 \<Longrightarrow> n < 12 + (b::u32) div 4 \<Longrightarrow> n - 12 < b div 4"
  using p_bound[of b] by unat_arith

lemma word_sub_less': "\<not> n < a \<Longrightarrow> n < a + q \<Longrightarrow> n - a < (q::u32)"
  by unat_arith

lemma double_rel: "\<not> n < 12 + p \<Longrightarrow> n < 12 + p + p * p \<Longrightarrow> n - 12 - p < p * (p::u32)"
  using word_sub_less'[of n "12 + p" "p * p"] by (simp add: diff_diff_eq)

lemma triple_rel: "\<not> n < 12 + p + p * p \<Longrightarrow> n < 12 + p + p * p + p * p * p
   \<Longrightarrow> n - 12 - p - p * p < p * p * (p::u32)"
  using word_sub_less'[of n "12 + p + p * p" "p * p * p"] by (simp add: diff_diff_eq)

lemma rib_direct:
  "n < 12 \<Longrightarrow> ext2_read_inode_block s i n buf =
     Inr \<lparr> buffer = ext2_read_block s (dbp i ! unat n) buf,
           blocks_read = [dbp i ! unat n], printed = [] \<rparr>"
  by (simp add: ext2_read_inode_block_def)

lemma rib_single:
  assumes "\<not> n < 12" "n < 12 + block_size s div 4"
  shows "\<exists>b1. ext2_read_inode_block s i n buf =
     Inr \<lparr> buffer = ext2_read_block s b1 buf, blocks_read = [sibp i, b1], printed = [] \<rparr>"
  using assms single_rel[of n "block_size s"]
  by (simp add: ext2_read_inode_block_def Let_def on_ok_def tmp_at_def)

lemma rib_double:
  assumes "\<not> n < 12" "\<not> n < 12 + block_size s div 4"
    "n < 12 + block_size s div 4 + block_size s div 4 * (block_size s div 4)"
  shows "\<exists>b1 b2. ext2_read_inode_block s i n buf =
     Inr \<lparr> buffer = ext2_read_block s b2 buf, blocks_read = [dibp i, b1, b2], printed = [] \<rparr>"
proof -
  let ?p = "block_size s div 4"
  have rel: "n - 12 - ?p < ?p * ?p" using assms by (simp add: double_rel)
  then have a: "(n - 12 - ?p) div ?p < ?p" by (rule div_lt_of_lt_mult)
  have "?p \<noteq> 0" using rel by auto
  then have b: "(n - 12 - ?p) mod ?p < ?p" by (rule mod_lt)
  show ?thesis using assms a b
    by (simp add: ext2_read_inode_block_def Let_def on_ok_def tmp_at_def)
qed

lemma rib_triple:
  assumes "\<not> n < 12" "\<not> n < 12 + block_size s div 4"
    "\<not> n < 12 + block_size s div 4 + block_size s div 4 * (block_size s div 4)"
    "n < 12 + block_size s div 4 + block_size s div 4 * (block_size s div 4)
         + block_size s div 4 * (block_size s div 4) * (block_size s div 4)"
  shows "if block_size s div 4 \<le> (n - 12 - block_size s div 4
              - block_size s div 4 * (block_size s div 4))
            mod (block_size s div 4 * (block_size s div 4))
         then ext2_read_inode_block s i n buf = Inl OutOfBounds
         else (\<exists>b1 b2 b3. ext2_read_inode_block s i n buf =
                Inr \<lparr> buffer = buf, blocks_read = [tibp i, b1, b2, b3], printed = [] \<rparr>)"
proof -
  let ?p = "block_size s div 4"
  let ?rel = "n - 12 - ?p - ?p * ?p"
  have rel: "?rel < ?p * ?p * ?p" using assms by (simp add: triple_rel)
  then have a: "?rel div (?p * ?p) < ?p" by (rule div_lt_of_lt_mult)
  have "?p \<noteq> 0" using rel by auto
  then have c: "?rel mod ?p < ?p" by (rule mod_lt)
  show ?thesis using assms a c
    by (simp add: ext2_read_inode_block_def Let_def on_ok_def tmp_at_def not_le)
qed

lemma rib_invalid:
  assumes "\<not> n < 12" "\<not> n < 12 + block_size s div 4"
    "\<not> n < 12 + block_size s div 4 + block_size s div 4 * (block_size s div 4)"
    "\<not> n < 12 + block_size s div 4 + block_size s div 4 * (block_size s div 4)
         + block_size s div 4 * (block_size s div 4) * (block_size s div 4)"
  shows "ext2_read_inode_block s i n buf =
     Inr \<lparr> buffer = buf, blocks_read = [], printed = [''[EXT2] Invalid inode block''] \<rparr>"
  using assms by (simp add: ext2_read_inode_block_def Let_def)

lemma range_unats:
  fixes p :: u32
  assumes "12 + unat p + unat p * unat p + unat p * unat p * unat p < 2 ^ 32"
  shows "unat (p * p) = unat p * unat p"
    and "unat (p * p * p) = unat p * unat p * unat p"
    and "unat (12 + p) = 12 + unat p"
    and "unat (12 + p + p * p) = 12 + unat p + unat p * unat p"
    and "unat (12 + p + p * p + p * p * p) = 12 + unat p + unat p * unat p + unat p * unat p * unat p"
proof -
  show pp: "unat (p * p) = unat p * unat p"
    using assms by (intro unat_mult_lem [THEN iffD1]) simp
  show ppp: "unat (p * p * p) = unat p * unat p * unat p"
    using assms pp unat_mult_lem [of "p * p" p] by simp
  show a: "unat (12 + p) = 12 + unat p"
    using assms unat_add_lem [of 12 p] by simp
  show b: "unat (12 + p + p * p) = 12 + unat p + unat p * unat p"
    using assms a pp unat_add_lem [of "12 + p" "p * p"] by simp
  show "unat (12 + p + p * p + p * p * p) = 12 + unat p + unat p * unat p + unat p * unat p * unat p"
    using assms b ppp unat_add_lem [of "12 + p + p * p" "p * p * p"] by simp
qed

text \<open>
  C4, as stated, fails. With a block size of 8192, \<open>p = 2048\<close> and \<^verbatim>\<open>p*p*p\<close> is
  \<open>2\<^sup>3\<^sup>3\<close>, which is 0 in a \<^verbatim>\<open>uint32_t\<close>: the bound of the triple-indirect range is the
  bound of the double-indirect one, and index \<open>12 + p + p\<^sup>2 = 4196364\<close> is not
  translated through three levels but reported as invalid.
\<close>

theorem translation_8k_blocks_counterexample:
  "block_size blocks_8k div 4 = 2048
   \<and> (4196364 :: u32) = 12 + 2048 + 2048 * 2048
   \<and> ext2_read_inode_block blocks_8k blank_inode 4196364 (\<lambda>a. 0)
       = Inr \<lparr> buffer = (\<lambda>a. 0), blocks_read = [],
               printed = [''[EXT2] Invalid inode block''] \<rparr>"
  by (simp add: blocks_8k_def ext2_read_inode_block_def Let_def)

text \<open>
  C4, amended. Let \<open>p = block_size / 4\<close>, not 0 and small enough for
  \<open>12 + p + p\<^sup>2 + p\<^sup>3\<close> to fit in 32 bits (block sizes 1024, 2048 and 4096 do). Then
  the indices \<open>11\<close>, \<open>12\<close>, \<open>12+p-1\<close>, \<open>12+p\<close>, \<open>12+p+p\<^sup>2-1\<close> and \<open>12+p+p\<^sup>2\<close> are
  translated through 0, 1, 1, 2, 2 and 3 levels of indirection, nothing being
  printed, and every index from \<open>12 + p + p\<^sup>2 + p\<^sup>3\<close> on reads no block, leaves the
  buffer as it was and prints the error message.
\<close>

theorem translation_boundaries:
  assumes p: "p = block_size s div 4"
    and pos: "0 < unat p"
    and fits: "12 + unat p + unat p * unat p + unat p * unat p * unat p < 2 ^ 32"
  shows "(\<exists>r. ext2_read_inode_block s i 11 buf = Inr r \<and> hops r = 0 \<and> printed r = [])
       \<and> (\<exists>r. ext2_read_inode_block s i 12 buf = Inr r \<and> hops r = 1 \<and> printed r = [])
       \<and> (\<exists>r. ext2_read_inode_block s i (12 + p - 1) buf = Inr r \<and> hops r = 1 \<and> printed r = [])
       \<and> (\<exists>r. ext2_read_inode_block s i (12 + p) buf = Inr r \<and> hops r = 2 \<and> printed r = [])
       \<and> (\<exists>r. ext2_read_inode_block s i (12 + p + p * p - 1) buf = Inr r \<and> hops r = 2 \<and> printed r = [])
       \<and> (\<exists>r. ext2_read_inode_block s i (12 + p + p * p) buf = Inr r \<and> hops r = 3 \<and> printed r = [])
       \<and> (\<forall>n. 12 + unat p + unat p * unat p + unat p * unat p * unat p \<le> unat n \<longrightarrow>
             ext2_read_inode_block s i n buf =
               Inr \<lparr> buffer = buf, blocks_read = [],
                     printed = [''[EXT2] Invalid inode block''] \<rparr>)"
proof -
  note u = range_unats [OF fits]
  have pp_pos: "0 < unat p * unat p" using pos by simp
  have c11: "(11::u32) < 12" by simp
  have c12: "\<not> (12::u32) < 12" "(12::u32) < 12 + p"
    using pos by (simp_all add: word_less_nat_alt u)
  have e1: "12 + p - 1 = 11 + p" by simp
  have um1: "unat (11 + p) = 11 + unat p"
    using fits unat_add_lem [of 11 p] by simp
  have c12p1: "\<not> 11 + p < 12" "11 + p < 12 + p"
    using pos by (simp_all add: word_less_nat_alt u um1)
  have c12p: "\<not> 12 + p < 12" "\<not> 12 + p < 12 + p" "12 + p < 12 + p + p * p"
    using pp_pos by (simp_all add: word_less_nat_alt u)
  have e2: "12 + p + p * p - 1 = 11 + p + p * p" by simp
  have um2: "unat (11 + p + p * p) = 11 + unat p + unat p * unat p"
    using fits um1 u(1) unat_add_lem [of "11 + p" "p * p"] by simp
  have c2: "\<not> 11 + p + p * p < 12" "\<not> 11 + p + p * p < 12 + p"
      "11 + p + p * p < 12 + p + p * p"
    using pp_pos by (simp_all add: word_less_nat_alt u um2)
  have c3: "\<not> 12 + p + p * p < 12" "\<not> 12 + p + p * p < 12 + p"
      "\<not> 12 + p + p * p < 12 + p + p * p"
      "12 + p + p * p < 12 + p + p * p + p * p * p"
    using pp_pos pos by (simp_all add: word_less_nat_alt u)
  have rel0: "\<not> p \<le> (12 + p + p * p - 12 - p - p * p) mod (p * p)"
    using pos by (simp add: word_le_nat_alt)
  have "\<exists>r. ext2_read_inode_block s i 11 buf = Inr r \<and> hops r = 0 \<and> printed r = []"
    using rib_direct [OF c11, of s i buf] by (simp add: hops_def)
  moreover have "\<exists>r. ext2_read_inode_block s i 12 buf = Inr r \<and> hops r = 1 \<and> printed r = []"
    using rib_single [of 12 s i buf] c12 p by (auto simp: hops_def)
  moreover have "\<exists>r. ext2_read_inode_block s i (12 + p - 1) buf = Inr r \<and> hops r = 1 \<and> printed r = []"
    unfolding e1 using rib_single [of "11 + p" s i buf] c12p1 p by (auto simp: hops_def)
  moreover have "\<exists>r. ext2_read_inode_block s i (12 + p) buf = Inr r \<and> hops r = 2 \<and> printed r = []"
    using rib_double [of "12 + p" s i buf] c12p p by (auto simp: hops_def)
  moreover have "\<exists>r. ext2_read_inode_block s i (12 + p + p * p - 1) buf = Inr r \<and> hops r = 2 \<and> printed r = []"
    unfolding e2 using rib_double [of "11 + p + p * p" s i buf] c2 p by (auto simp: hops_def)
  moreover have "\<exists>r. ext2_read_inode_block s i (12 + p + p * p) buf = Inr r \<and> hops r = 3 \<and> printed r = []"
    using rib_triple [of "12 + p + p * p" s i buf] c3 rel0 p by (auto simp: hops_def)
  moreover have "\<forall>n. 12 + unat p + unat p * unat p + unat p * unat p * unat p \<le> unat n \<longrightarrow>
             ext2_read_inode_block s i n buf =
               Inr \<lparr> buffer = buf, blocks_read = [],
                     printed = [''[EXT2] Invalid inode block''] \<rparr>"
  proof (intro allI impI)
    fix n :: u32
    assume big: "12 + unat p + unat p * unat p + unat p * unat p * unat p \<le> unat n"
    have "\<not> n < 12" "\<not> n < 12 + p" "\<not> n < 12 + p + p * p"
        "\<not> n < 12 + p + p * p + p * p * p"
      using big by (simp_all add: word_less_nat_alt u)
    then show "ext2_read_inode_block s i n buf =
               Inr \<lparr> buffer = buf, blocks_read = [],
                     printed = [''[EXT2] Invalid inode block''] \<rparr>"
      using rib_invalid [of n s i buf] p by simp
  qed
  ultimately show ?thesis by blast
qed

theorem translation_boundaries_witness:
  "(\<exists>r. ext2_read_inode_block mounted_blank blank_inode 11 (\<lambda>a. 0) = Inr r \<and> hops r = 0 \<and> printed r = [])
   \<and> (\<exists>r. ext2_read_inode_block mounted_blank blank_inode 12 (\<lambda>a. 0) = Inr r \<and> hops r = 1 \<and> printed r = [])
   \<and> (\<exists>r. ext2_read_inode_block mounted_blank blank_inode 267 (\<lambda>a. 0) = Inr r \<and> hops r = 1 \<and> printed r = [])
   \<and> (\<exists>r. ext2_read_inode_block mounted_blank blank_inode 268 (\<lambda>a. 0) = Inr r \<and> hops r = 2 \<and> printed r = [])
   \<and> (\<exists>r. ext2_read_inode_block mounted_blank blank_inode 65803 (\<lambda>a. 0) = Inr r \<and> hops r = 2 \<and> printed r = [])
   \<and> (\<exists>r. ext2_read_inode_block mounted_blank blank_inode 65804 (\<lambda>a. 0) = Inr r \<and> hops r = 3 \<and> printed r = [])
   \<and> ext2_read_inode_block mounted_blank blank_inode 16843020 (\<lambda>a. 0) =
         Inr \<lparr> buffer = (\<lambda>a. 0), blocks_read = [],
               printed = [''[EXT2] Invalid inode block''] \<rparr>"
proof -
  have p: "(256::u32) = block_size mounted_blank div 4"
    by (simp add: mounted_blank_def)
  have pos: "0 < unat (256::u32)" by simp
  have fits: "12 + unat (256::u32) + unat (256::u32) * unat (256::u32)
      + unat (256::u32) * unat (256::u32) * unat (256::u32) < 2 ^ 32" by simp
  have big: "12 + unat (256::u32) + unat (256::u32) * unat (256::u32)
      + unat (256::u32) * unat (256::u32) * unat (256::u32) \<le> unat (16843020::u32)" by simp
  note t = translation_boundaries [OF p pos fits, of blank_inode "\<lambda>a. 0"]
  from t have last: "ext2_read_inode_block mounted_blank blank_inode 16843020 (\<lambda>a. 0) =
         Inr \<lparr> buffer = (\<lambda>a. 0), blocks_read = [],
               printed = [''[EXT2] Invalid inode block''] \<rparr>"
    using big by blast
  from t last show ?thesis by simp
qed

section \<open>The example volume\<close>

lemmas vol_simps = vol_def vol_ram_def vol_bytes_def vol_file_def vol_root_def vol_big_def
  vol_superblock_def

lemmas word_eval = word_le_nat_alt word_less_nat_alt unsigned_minus_1_eq_mask
  mask_eq_exp_minus_1

lemma vol_get_inode_0: "ext2_get_inode vol 0 = Inr None"
  by (simp add: ext2_get_inode_def)

lemma vol_get_inode_2: "ext2_get_inode vol 2 = Inr (Some vol_root)"
  by (simp add: ext2_get_inode_def ext2_read_block_def memcpy_def read_inode_def le32_def
      sizeof_inode_t_def vol_simps Let_def upt_rec)

lemma vol_get_inode_3: "ext2_get_inode vol 3 = Inr (Some vol_file)"
  by (simp add: ext2_get_inode_def ext2_read_block_def memcpy_def read_inode_def le32_def
      sizeof_inode_t_def vol_simps Let_def upt_rec)

lemma vol_get_inode_4: "ext2_get_inode vol 4 = Inr (Some vol_big)"
  by (simp add: ext2_get_inode_def ext2_read_block_def memcpy_def read_inode_def le32_def
      sizeof_inode_t_def vol_simps Let_def upt_rec)

section \<open>Triple-indirect blocks\<close>

text \<open>
  C1 fails on the code. In the example volume \<open>p = 256\<close>. Index
  \<open>65804 = 12 + p + p\<^sup>2\<close> has \<open>rel = 0\<close> and \<open>a = b = c = 0\<close>: the three hops lead from
  block 11 over blocks 12 and 13 to block 14, which is read, but into \<^verbatim>\<open>tmp\<close>: the
  caller's buffer is as it was, and holds nothing of block 14. Index \<open>66060\<close> has
  \<open>rel = 256\<close>, for which the claim has \<open>b = 1\<close>; the source's
  \<^verbatim>\<open>offset_b = relblock % (p*p)\<close> is 256, past the 256 pointers of the block.
\<close>

theorem triple_indirect_not_delivered:
  "ext2_read_inode_block vol vol_file 65804 (\<lambda>a. 0)
     = Inr \<lparr> buffer = (\<lambda>a. 0), blocks_read = [11, 12, 13, 14], printed = [] \<rparr>
   \<and> ext2_read_block vol 14 (\<lambda>a. 0) 0 = 0xDD
   \<and> ext2_read_inode_block vol vol_file 66060 (\<lambda>a. 0) = Inl OutOfBounds"
  by (simp add: ext2_read_inode_block_def ext2_read_block_def memcpy_def le32_def tmp_at_def
      on_ok_def vol_simps Let_def)

section \<open>Reads that span several blocks\<close>

text \<open>
  C2 fails on the code. Reading 2049 bytes at offset 1 of the file \<^verbatim>\<open>f\<close> spans its
  blocks 0, 1 and 2 with \<^verbatim>\<open>start_offset = 1\<close> and \<^verbatim>\<open>end_offset = 2\<close>. The middle block
  goes to \<^verbatim>\<open>buf + start_offset + 1*block_size - start_offset\<close>, that is to position
  1024 and not to 1023: position 1023 of the output keeps the 0 the buffer held
  before the call, where the file has the first byte of its second block.
\<close>

theorem ext2_read_middle_block_misplaced:
  "(\<exists>buf'. ext2_read vol (\<lambda>a. 0) 3 1 (\<lambda>a. 0) 2049 = Inr (2049, buf') \<and> buf' 1023 = 0)
   \<and> spec_file_byte vol vol_file (1 + 1023) = 0xA9"
proof -
  have "\<exists>buf'. ext2_read_inode vol (\<lambda>a. 0) vol_file 1 (\<lambda>a. 0) 2049 = Inr (2049, buf')
      \<and> buf' 1023 = 0"
    by (simp add: ext2_read_inode_def Let_def vol_def vol_file_def on_ok_def
        ext2_read_loop.simps ext2_read_inode_block_def ext2_read_block_def memcpy_def
        word_eval)
  moreover have "spec_file_byte vol vol_file (1 + 1023) = 0xA9"
    by (simp add: spec_file_byte_def ext2_read_inode_block_def ext2_read_block_def memcpy_def
        vol_simps Let_def)
  ultimately show ?thesis
    by (simp add: ext2_read_def vol_get_inode_3 on_ok_def)
qed

section \<open>The number of bytes a read returns\<close>




lemma ext2_read_inode_early:
  "sz = 0 \<or> size_lower i = 0 \<or> size_lower i \<le> offset \<Longrightarrow>
   ext2_read_inode s tmp0 i offset buf sz = Inr (0, buf)"
  by (simp add: ext2_read_inode_def)






section \<open>The upper half of the file size\<close>

lemma rib_size_upper:
  "ext2_read_inode_block s (i\<lparr>size_upper := x\<rparr>) n buf = ext2_read_inode_block s i n buf"
  by (simp add: ext2_read_inode_block_def Let_def)

lemma read_loop_size_upper:
  "ext2_read_loop s (i\<lparr>size_upper := x\<rparr>) start_block end_block start_offset tmp buf block_no
     = ext2_read_loop s i start_block end_block start_offset tmp buf block_no"
proof (induction s i start_block end_block start_offset tmp buf block_no
    rule: ext2_read_loop.induct)
  case (1 s i start_block end_block start_offset tmp buf block_no)
  note L = ext2_read_loop.simps
    [of s "i\<lparr>size_upper := x\<rparr>" start_block end_block start_offset tmp buf block_no]
  note R = ext2_read_loop.simps
    [of s i start_block end_block start_offset tmp buf block_no]
  show ?case
  proof (cases "block_no < end_block")
    case False
    then show ?thesis by (simp add: L R)
  next
    case True
    show ?thesis
    proof (cases "block_no = start_block")
      case eq: True
      show ?thesis
      proof (cases "ext2_read_inode_block s i start_block tmp")
        case (Inl e)
        then show ?thesis unfolding L R using True eq by (simp add: rib_size_upper)
      next
        case (Inr r)
        then show ?thesis unfolding L R using True eq 1(1) [OF True eq Inr]
          by (simp add: rib_size_upper)
      qed
    next
      case ne: False
      show ?thesis
      proof (cases "ext2_read_inode_block s i block_no tmp")
        case (Inl e)
        then show ?thesis unfolding L R using True ne by (simp add: rib_size_upper)
      next
        case (Inr r)
        then show ?thesis unfolding L R using True ne 1(2) [OF True ne Inr]
          by (simp add: rib_size_upper)
      qed
    qed
  qed
qed

lemma read_inode_size_upper:
  "ext2_read_inode s junk (i\<lparr>size_upper := x\<rparr>) offset buf sz
     = ext2_read_inode s junk i offset buf sz"
  by (simp add: ext2_read_inode_def Let_def rib_size_upper read_loop_size_upper cong: if_cong)

text \<open>
  C10. \<^verbatim>\<open>ext2_read\<close> never reads \<^verbatim>\<open>size_upper\<close>: the body of the read gives the same
  result whatever that field holds, a read of an inode is the read of that inode
  with \<^verbatim>\<open>size_upper\<close> cleared, and a read at or past \<^verbatim>\<open>size_lower\<close> returns 0 bytes
  whatever \<^verbatim>\<open>size_upper\<close> is.
\<close>

theorem size_upper_ignored:
  "ext2_read_inode s junk (i\<lparr>size_upper := x\<rparr>) offset buf sz
     = ext2_read_inode s junk i offset buf sz
   \<and> (ext2_get_inode s inode = Inr (Some i) \<longrightarrow>
        ext2_read s junk inode offset buf sz
          = ext2_read_inode s junk (i\<lparr>size_upper := 0\<rparr>) offset buf sz)
   \<and> (ext2_get_inode s inode = Inr (Some i) \<and> size_lower i \<le> offset \<longrightarrow>
        ext2_read s junk inode offset buf sz = Inr (0, buf))"
  by (simp add: read_inode_size_upper ext2_read_def on_ok_def ext2_read_inode_early)

theorem size_upper_ignored_witness:
  "size_upper vol_big = 1
   \<and> ext2_read vol (\<lambda>a. 0) 4 3 (\<lambda>a. 0) 5
       = ext2_read_inode vol (\<lambda>a. 0) (vol_big\<lparr>size_upper := 0\<rparr>) 3 (\<lambda>a. 0) 5
   \<and> ext2_read vol (\<lambda>a. 0) 4 16 (\<lambda>a. 0) 5 = Inr (0, \<lambda>a. 0)"
proof -
  have h: "ext2_get_inode vol 4 = Inr (Some vol_big) \<and> size_lower vol_big \<le> 16"
    by (simp add: vol_get_inode_4 vol_big_def)
  have a: "ext2_read vol (\<lambda>a. 0) 4 3 (\<lambda>a. 0) 5
       = ext2_read_inode vol (\<lambda>a. 0) (vol_big\<lparr>size_upper := 0\<rparr>) 3 (\<lambda>a. 0) 5"
    using size_upper_ignored [where s = vol and inode = 4 and i = vol_big
        and junk = "\<lambda>a. 0" and offset = 3 and buf = "\<lambda>a. 0" and sz = 5] h
    by blast
  have b: "ext2_read vol (\<lambda>a. 0) 4 16 (\<lambda>a. 0) 5 = Inr (0, \<lambda>a. 0)"
    using size_upper_ignored [where s = vol and inode = 4 and i = vol_big
        and junk = "\<lambda>a. 0" and offset = 16 and buf = "\<lambda>a. 0" and sz = 5] h
    by blast
  from a b show ?thesis by (simp add: vol_big_def)
qed

section \<open>Directory iterator: reads that come back short\<close>

text \<open>
  C8, as stated, fails. In the example volume the root directory has 1024 bytes.
  At offset 1018 the header read returns 6 of the 8 bytes asked for, the record
  length read from them is 12, the second read returns 6 of the 12 bytes asked
  for, and \<^verbatim>\<open>ext2_readdir\<close> returns an entry: it tests each count against 0 only.
\<close>

theorem ext2_readdir_short_read_counterexample:
  "(\<exists>ent. ext2_read vol (\<lambda>a. 0) 2 1018 (\<lambda>a. 0) sizeof_ext2_directory_entry_t = Inr (6, ent)
        \<and> entry_size ent 0 = 12
        \<and> (\<exists>entry. ext2_read vol (\<lambda>a. 0) 2 1018 (\<lambda>a. 0) 12 = Inr (6, entry)))
   \<and> (\<exists>entry. ext2_readdir vol (\<lambda>k a. 0) 2 1018 = Inr (Some entry))"
proof -
  have r1: "\<exists>ent. ext2_read_inode vol (\<lambda>a. 0) vol_root 1018 (\<lambda>a. 0) 8 = Inr (6, ent)
      \<and> entry_size ent 0 = 12"
    by (simp add: ext2_read_inode_def Let_def vol_simps on_ok_def
        ext2_read_loop.simps ext2_read_inode_block_def ext2_read_block_def memcpy_def
        entry_size_def le16_def word_eval)
  have r2: "\<exists>entry. ext2_read_inode vol (\<lambda>a. 0) vol_root 1018 (\<lambda>a. 0) 12 = Inr (6, entry)"
    by (simp add: ext2_read_inode_def Let_def vol_simps on_ok_def
        ext2_read_loop.simps ext2_read_inode_block_def ext2_read_block_def memcpy_def
        word_eval)
  have rd: "ext2_read vol (\<lambda>a. 0) 2 1018 (\<lambda>a. 0) n
      = ext2_read_inode vol (\<lambda>a. 0) vol_root 1018 (\<lambda>a. 0) n" for n
    by (simp add: ext2_read_def vol_get_inode_2 on_ok_def)
  from r1 r2 show ?thesis
    by (auto simp: ext2_readdir_def rd on_ok_def sizeof_ext2_directory_entry_t_def)
qed

text \<open>
  C8, amended: \<^verbatim>\<open>ext2_readdir\<close> returns NULL whenever either of its two reads returns
  0 bytes, in particular when the inode lookup returns NULL and when the
  directory is empty or the offset is at or past its end.
\<close>

theorem ext2_readdir_none_on_empty_read:
  "(ext2_get_inode s inode = Inr None \<longrightarrow> ext2_readdir s fresh inode offset = Inr None)
   \<and> (ext2_get_inode s inode = Inr (Some i)
        \<and> (size_lower i = 0 \<or> size_lower i \<le> offset) \<longrightarrow>
      ext2_readdir s fresh inode offset = Inr None)
   \<and> (ext2_read s (fresh 1) inode offset (fresh 0) sizeof_ext2_directory_entry_t = Inr (0, ent)
        \<longrightarrow> ext2_readdir s fresh inode offset = Inr None)
   \<and> (ext2_read s (fresh 1) inode offset (fresh 0) sizeof_ext2_directory_entry_t = Inr (n, ent)
        \<and> ext2_read s (fresh 3) inode offset (fresh 2) (ucast (entry_size ent 0)) = Inr (0, entry)
        \<longrightarrow> ext2_readdir s fresh inode offset = Inr None)"
  by (auto simp: ext2_readdir_def on_ok_def ext2_read_def ext2_read_inode_early)

theorem ext2_readdir_none_on_empty_read_witness:
  "ext2_readdir vol (\<lambda>k a. 0) 0 0 = Inr None
   \<and> ext2_readdir vol (\<lambda>k a. 0) 2 1024 = Inr None
   \<and> ext2_readdir vol (\<lambda>k a. 0) 2 36 = Inr None"
proof -
  have a: "ext2_readdir vol (\<lambda>k a. 0) 0 0 = Inr None"
    using ext2_readdir_none_on_empty_read [where s = vol and inode = 0 and fresh = "\<lambda>k a. 0"
        and offset = 0] vol_get_inode_0
    by blast
  have "ext2_get_inode vol 2 = Inr (Some vol_root)
      \<and> (size_lower vol_root = 0 \<or> size_lower vol_root \<le> 1024)"
    by (simp add: vol_get_inode_2 vol_root_def)
  then have b: "ext2_readdir vol (\<lambda>k a. 0) 2 1024 = Inr None"
    using ext2_readdir_none_on_empty_read [where s = vol and inode = 2 and fresh = "\<lambda>k a. 0"
        and offset = 1024 and i = vol_root]
    by blast
  have rd: "ext2_read vol (\<lambda>a. 0) 2 36 (\<lambda>a. 0) n
      = ext2_read_inode vol (\<lambda>a. 0) vol_root 36 (\<lambda>a. 0) n" for n
    by (simp add: ext2_read_def vol_get_inode_2 on_ok_def)
  have r1: "\<exists>ent. ext2_read vol (\<lambda>a. 0) 2 36 (\<lambda>a. 0) sizeof_ext2_directory_entry_t = Inr (8, ent)
      \<and> entry_size ent 0 = 0"
    unfolding rd
    by (simp add: ext2_read_inode_def Let_def vol_simps on_ok_def
        ext2_read_inode_block_def ext2_read_block_def memcpy_def
        entry_size_def le16_def word_eval sizeof_ext2_directory_entry_t_def)
  then obtain ent where e: "ext2_read vol (\<lambda>a. 0) 2 36 (\<lambda>a. 0) sizeof_ext2_directory_entry_t = Inr (8, ent)"
      "entry_size ent 0 = 0" by blast
  have r2: "ext2_read vol (\<lambda>a. 0) 2 36 (\<lambda>a. 0) (ucast (entry_size ent 0)) = Inr (0, \<lambda>a. 0)"
    unfolding rd e by (simp add: ext2_read_inode_def)
  have c: "ext2_readdir vol (\<lambda>k a. 0) 2 36 = Inr None"
    using ext2_readdir_none_on_empty_read [where s = vol and inode = 2 and fresh = "\<lambda>k a. 0"
        and offset = 36 and n = 8 and ent = ent and entry = "\<lambda>a. 0"] e(1) r2
    by blast
  from a b c show ?thesis by simp
qed

section \<open>Path resolver: the failures\<close>





section \<open>Block allocator: several groups, one group\<close>

lemmas alloc_eval = ext2_allocate_block_def ext2_allocate_block_loop.simps ext2_read_block_def
  ext2_write_block_def memcpy_def Let_def word_eval

text \<open>
  C6 fails on the code. On the volume of two groups of 16 blocks, group 0 is full
  and block 16, the first of group 1, is free. The scan enters group 1 at
  \<open>j = 16\<close>: \<^verbatim>\<open>bitmap\<close> becomes the bitmap block of group 1 (block 20), but \<^verbatim>\<open>tmp\<close> is
  not reloaded (16 is not a multiple of \<^verbatim>\<open>8*block_size\<close>) and still holds the bitmap
  of group 0, in which bit 16 is clear. The bit is set in \<^verbatim>\<open>tmp\<close> and \<^verbatim>\<open>tmp\<close> is written
  to block \<^verbatim>\<open>bitmap - 1\<close>, block 19. Neither bitmap block has changed, and the next
  call returns block 16 again.
\<close>

theorem allocate_block_same_block_twice:
  "\<exists>s1 s2. ext2_allocate_block small_groups = Inr (16, s1)
      \<and> ext2_allocate_block s1 = Inr (16, s2)
      \<and> ram s1 (0x100000 + 3 * 1024 + 2) = ram small_groups (0x100000 + 3 * 1024 + 2)
      \<and> ram s1 (0x100000 + 20 * 1024) = ram small_groups (0x100000 + 20 * 1024)
      \<and> ram small_groups (0x100000 + 19 * 1024 + 2) = 0
      \<and> ram s1 (0x100000 + 19 * 1024 + 2) = 1"
  by (simp add: alloc_eval small_groups_def small_groups_ram_def)

text \<open>
  Within the first group the scan is right: where the bitmap of a group fits in
  one block, it returns the first block of group 0 that is free from
  \<^verbatim>\<open>first_available_block\<close> on, with its bit set in the bitmap block; on a volume
  of one group with none free it returns 0 and leaves the state as it was.
\<close>

lemma read_block_idem: "ext2_read_block s b (ext2_read_block s b t) = ext2_read_block s b t"
  by (auto simp: ext2_read_block_def memcpy_def)

lemma read_block_at: "x < block_size s \<Longrightarrow>
  ext2_read_block s b t x = ram s (device s + b * block_size s + x)"
  by (simp add: ext2_read_block_def memcpy_def)

lemma write_back:
  assumes "x < block_size s"
  shows "ext2_write_block s b ((ext2_read_block s b t)(x := v))
     = s\<lparr>ram := (ram s)(device s + b * block_size s + x := v)\<rparr>"
proof -
  have "memcpy (ram s) (device s + b * block_size s)
          ((ext2_read_block s b t)(x := v)) 0 (block_size s)
        = (ram s)(device s + b * block_size s + x := v)"
  proof
    fix a
    show "memcpy (ram s) (device s + b * block_size s)
          ((ext2_read_block s b t)(x := v)) 0 (block_size s) a
        = ((ram s)(device s + b * block_size s + x := v)) a"
    proof (cases "a - (device s + b * block_size s) < block_size s")
      case True
      have e: "(a - (device s + b * block_size s) = x) = (a = device s + b * block_size s + x)"
        by auto
      show ?thesis using True e
        by (simp add: memcpy_def read_block_at)
    next
      case False
      then have "a \<noteq> device s + b * block_size s + x" using assms by auto
      then show ?thesis using False by (simp add: memcpy_def)
    qed
  qed
  then show ?thesis by (simp add: ext2_write_block_def)
qed

lemma alloc_loop_step:
  assumes wf: "bitmap_fits s sb gds"
    and lo: "first_available_block sb \<le> j" and hi: "j < blocks_per_group sb"
    and inv: "j = first_available_block sb
       \<or> (ext2_read_block s (block_bitmap (gds ! 0)) tmp = tmp
           \<and> bitmap = block_bitmap (gds ! 0) + 1)"
  shows "ext2_allocate_block_loop s sb tmp bitmap j =
     (if bitmap_bit (ram s) (device s + block_bitmap (gds ! 0) * block_size s) j
      then ext2_allocate_block_loop s sb (ext2_read_block s (block_bitmap (gds ! 0)) tmp)
             (block_bitmap (gds ! 0) + 1) (j + 1)
      else Inr (j, s\<lparr>ram := mark (ram s)
                       (device s + block_bitmap (gds ! 0) * block_size s) j\<rparr>))"
proof -
  let ?bpg = "blocks_per_group sb" and ?f = "first_available_block sb"
  let ?B = "block_bitmap (gds ! 0)" and ?bs = "block_size s"
  from wf have sbs: "superblock s = Some sb" and gd: "group_descriptors s = Some gds"
    and ne: "gds \<noteq> []" and groups: "num_block_groups s \<noteq> 0"
    and scan: "unat ?bpg * unat (num_block_groups s) < 2 ^ 32"
    and fit: "unat ?bpg \<le> 8 * unat ?bs" and nowrap: "8 * unat ?bs < 2 ^ 32"
    by (simp_all add: bitmap_fits_def)
  have uj: "unat j < unat ?bpg" using hi by (simp add: word_less_nat_alt)
  have u8bs: "unat (8 * ?bs) = 8 * unat ?bs"
    using nowrap unat_mult_lem [of 8 ?bs] by simp
  have "unat (?bpg * num_block_groups s) = unat ?bpg * unat (num_block_groups s)"
    using scan unat_mult_lem [of ?bpg "num_block_groups s"] by simp
  moreover have "1 \<le> unat (num_block_groups s)"
    using groups by (simp add: unat_gt_0 Suc_le_eq)
  ultimately have "unat ?bpg \<le> unat (?bpg * num_block_groups s)" by simp
  then have c1: "j < ?bpg * num_block_groups s"
    using uj by (simp add: word_less_nat_alt)
  have d0: "unat (j div ?bpg) = 0" using uj by (simp add: unat_div)
  have m1: "j mod ?bpg = j" using hi by (simp add: word_mod_less_divisor mod_word_less)
  have g: "(j mod ?bpg = 0 \<or> j = ?f) = (j = ?f)"
    using lo m1 by auto
  have nz: "8 * ?bs \<noteq> 0"
    using u8bs uj fit by (metis less_nat_zero_code mult_is_0 unat_0 le_zero_eq not_less)
  have j8: "j < 8 * ?bs" using uj fit u8bs by (simp add: word_less_nat_alt)
  have m2: "j mod (8 * ?bs) = j" using j8 by (simp add: mod_word_less)
  have r: "(j mod (8 * ?bs) = 0 \<or> j = ?f) = (j = ?f)"
    using lo m2 by auto
  have inb: "j div 8 < ?bs"
    using uj fit by (simp add: word_less_nat_alt unat_div)
  have tmp1: "(if j = ?f then ext2_read_block s ?B tmp else tmp) = ext2_read_block s ?B tmp"
    using inv by auto
  have bm1: "(if j = ?f then ?B + 1 else bitmap) = ?B + 1"
    using inv by auto
  have byte: "ext2_read_block s ?B tmp (j div 8) = ram s (device s + ?B * ?bs + j div 8)"
    using inb by (rule read_block_at)
  have inb': "\<not> ?bs \<le> j div 8" using inb by simp
  have len: "0 < length gds" using ne by simp
  show ?thesis
  proof (cases "j = ?f")
    case True
    have c1': "?f < ?bpg * num_block_groups s" using c1 True by simp
    have d0': "unat (?f div ?bpg) = 0" using d0 True by simp
    have inbf: "\<not> ?bs \<le> ?f div 8" using inb' True by simp
    have bytef: "ext2_read_block s ?B tmp (?f div 8) = ram s (device s + ?B * ?bs + ?f div 8)"
      using byte True by simp
    have wbf: "ext2_write_block s ?B ((ext2_read_block s ?B tmp)(?f div 8 := v))
        = s\<lparr>ram := (ram s)(device s + ?B * ?bs + ?f div 8 := v)\<rparr>" for v
      using write_back [OF inb, of ?B tmp v] True by simp
    show ?thesis unfolding True
      by (subst ext2_allocate_block_loop.simps)
         (simp add: c1' gd ne d0' nz Let_def inbf bytef wbf and_exp_eq_0_iff_not_bit
            bitmap_bit_def mark_def)
  next
    case False
    from inv False have t: "ext2_read_block s ?B tmp = tmp" and b: "bitmap = ?B + 1"
      by simp_all
    have g': "\<not> (j mod ?bpg = 0 \<or> j = ?f)" using g False by simp
    have r': "\<not> (j mod (8 * ?bs) = 0 \<or> j = ?f)" using r False by simp
    have bytej: "tmp (j div 8) = ram s (device s + ?B * ?bs + j div 8)"
      using byte t by simp
    have wbj: "ext2_write_block s ?B (tmp(j div 8 := v))
        = s\<lparr>ram := (ram s)(device s + ?B * ?bs + j div 8 := v)\<rparr>" for v
      using write_back [OF inb, of ?B tmp v] t by simp
    show ?thesis
      by (subst ext2_allocate_block_loop.simps)
         (simp add: c1 g' r' nz Let_def inb' bytej wbj and_exp_eq_0_iff_not_bit
            bitmap_bit_def mark_def t b)
  qed
qed

lemma alloc_loop_finds:
  assumes wf: "bitmap_fits s sb gds"
    and k: "k < blocks_per_group sb"
      "\<not> bitmap_bit (ram s) (device s + block_bitmap (gds ! 0) * block_size s) k"
  shows "unat k - unat j = n \<Longrightarrow> first_available_block sb \<le> j \<Longrightarrow> j \<le> k \<Longrightarrow>
     (\<And>x. j \<le> x \<Longrightarrow> x < k \<Longrightarrow>
        bitmap_bit (ram s) (device s + block_bitmap (gds ! 0) * block_size s) x) \<Longrightarrow>
     j = first_available_block sb
       \<or> (ext2_read_block s (block_bitmap (gds ! 0)) tmp = tmp
           \<and> bitmap = block_bitmap (gds ! 0) + 1) \<Longrightarrow>
     ext2_allocate_block_loop s sb tmp bitmap j
       = Inr (k, s\<lparr>ram := mark (ram s)
                      (device s + block_bitmap (gds ! 0) * block_size s) k\<rparr>)"
proof (induction n arbitrary: j tmp bitmap)
  case 0
  then have "j = k" by (simp add: word_le_nat_alt word_unat_eq_iff)
  then show ?case
    using alloc_loop_step [OF wf, of j tmp bitmap] 0 k by simp
next
  case (Suc n)
  then have lt: "j < k" by (simp add: word_less_nat_alt)
  then have hi: "j < blocks_per_group sb" using k(1) by simp
  have set: "bitmap_bit (ram s) (device s + block_bitmap (gds ! 0) * block_size s) j"
    using Suc.prems(4) [of j] lt by simp
  have u: "unat (j + 1) = Suc (unat j)" using lt by (rule word_succ_unat)
  have a: "unat k - unat (j + 1) = n" using Suc.prems(1) u by simp
  have b: "first_available_block sb \<le> j + 1"
    using Suc.prems(2) u by (simp add: word_le_nat_alt)
  have c: "j + 1 \<le> k" using lt u by (simp add: word_le_nat_alt word_less_nat_alt)
  have d: "\<And>x. j + 1 \<le> x \<Longrightarrow> x < k \<Longrightarrow>
      bitmap_bit (ram s) (device s + block_bitmap (gds ! 0) * block_size s) x"
  proof -
    fix x assume "j + 1 \<le> x" "x < k"
    moreover from this have "j \<le> x" using u by (simp add: word_le_nat_alt)
    ultimately show "bitmap_bit (ram s) (device s + block_bitmap (gds ! 0) * block_size s) x"
      using Suc.prems(4) by simp
  qed
  have "ext2_allocate_block_loop s sb tmp bitmap j
      = ext2_allocate_block_loop s sb (ext2_read_block s (block_bitmap (gds ! 0)) tmp)
          (block_bitmap (gds ! 0) + 1) (j + 1)"
    using alloc_loop_step [OF wf Suc.prems(2) hi Suc.prems(5)] set by simp
  also have "\<dots> = Inr (k, s\<lparr>ram := mark (ram s)
                      (device s + block_bitmap (gds ! 0) * block_size s) k\<rparr>)"
    by (rule Suc.IH [OF a b c d]) (simp_all add: read_block_idem)
  finally show ?case .
qed

lemma alloc_loop_full:
  assumes wf: "bitmap_fits s sb gds" and one: "num_block_groups s = 1"
  shows "unat (blocks_per_group sb) - unat j = n \<Longrightarrow> first_available_block sb \<le> j \<Longrightarrow>
     (\<And>x. j \<le> x \<Longrightarrow> x < blocks_per_group sb \<Longrightarrow>
        bitmap_bit (ram s) (device s + block_bitmap (gds ! 0) * block_size s) x) \<Longrightarrow>
     j = first_available_block sb
       \<or> (ext2_read_block s (block_bitmap (gds ! 0)) tmp = tmp
           \<and> bitmap = block_bitmap (gds ! 0) + 1) \<Longrightarrow>
     ext2_allocate_block_loop s sb tmp bitmap j = Inr (0, s)"
proof (induction n arbitrary: j tmp bitmap)
  case 0
  then have "\<not> j < blocks_per_group sb" by (simp add: word_less_nat_alt)
  then show ?case using one
    by (subst ext2_allocate_block_loop.simps) simp
next
  case (Suc n)
  then have hi: "j < blocks_per_group sb" by (simp add: word_less_nat_alt)
  have set: "bitmap_bit (ram s) (device s + block_bitmap (gds ! 0) * block_size s) j"
    using Suc.prems(3) [of j] hi by simp
  have u: "unat (j + 1) = Suc (unat j)" using hi by (rule word_succ_unat)
  have a: "unat (blocks_per_group sb) - unat (j + 1) = n" using Suc.prems(1) u by simp
  have b: "first_available_block sb \<le> j + 1"
    using Suc.prems(2) u by (simp add: word_le_nat_alt)
  have d: "\<And>x. j + 1 \<le> x \<Longrightarrow> x < blocks_per_group sb \<Longrightarrow>
      bitmap_bit (ram s) (device s + block_bitmap (gds ! 0) * block_size s) x"
  proof -
    fix x assume "j + 1 \<le> x" "x < blocks_per_group sb"
    moreover from this have "j \<le> x" using u by (simp add: word_le_nat_alt)
    ultimately show "bitmap_bit (ram s) (device s + block_bitmap (gds ! 0) * block_size s) x"
      using Suc.prems(3) by simp
  qed
  have "ext2_allocate_block_loop s sb tmp bitmap j
      = ext2_allocate_block_loop s sb (ext2_read_block s (block_bitmap (gds ! 0)) tmp)
          (block_bitmap (gds ! 0) + 1) (j + 1)"
    using alloc_loop_step [OF wf Suc.prems(2) hi Suc.prems(4)] set by simp
  also have "\<dots> = Inr (0, s)"
    by (rule Suc.IH [OF a b d]) (simp_all add: read_block_idem)
  finally show ?case .
qed

lemma allocate_block_first_free:
  assumes wf: "bitmap_fits s sb gds"
    and "first_available_block sb \<le> k" "k < blocks_per_group sb"
    and "\<not> bitmap_bit (ram s) (device s + block_bitmap (gds ! 0) * block_size s) k"
    and "\<And>x. first_available_block sb \<le> x \<Longrightarrow> x < k \<Longrightarrow>
        bitmap_bit (ram s) (device s + block_bitmap (gds ! 0) * block_size s) x"
  shows "ext2_allocate_block s
     = Inr (k, s\<lparr>ram := mark (ram s) (device s + block_bitmap (gds ! 0) * block_size s) k\<rparr>)"
proof -
  have sb: "superblock s = Some sb" using wf by (simp add: bitmap_fits_def)
  show ?thesis unfolding ext2_allocate_block_def sb option.case
    using alloc_loop_finds [OF wf assms(3,4) refl, of "first_available_block sb" "\<lambda>_. 0" 0]
      assms(2,5) by simp
qed

lemma allocate_block_full:
  assumes wf: "bitmap_fits s sb gds" and one: "num_block_groups s = 1"
    and all_set: "\<And>x. first_available_block sb \<le> x \<Longrightarrow> x < blocks_per_group sb \<Longrightarrow>
        bitmap_bit (ram s) (device s + block_bitmap (gds ! 0) * block_size s) x"
  shows "ext2_allocate_block s = Inr (0, s)"
proof -
  have sb: "superblock s = Some sb" using wf by (simp add: bitmap_fits_def)
  show ?thesis unfolding ext2_allocate_block_def sb option.case
    using alloc_loop_full [OF wf one refl, of "first_available_block sb" "\<lambda>_. 0" 0]
      all_set by simp
qed

lemma word_div_mod_8_eq: "(j::u32) div 8 = k div 8 \<Longrightarrow> j mod 8 = k mod 8 \<Longrightarrow> j = k"
  by (metis div_mult_mod_eq)

lemma bitmap_bit_mark:
  "bitmap_bit (mark m base k) base j = (bitmap_bit m base j \<or> j = k)"
proof (cases "j div 8 = k div 8")
  case True
  have lt: "unat (k mod 8) < 8" by (simp add: unat_mod) 
  have "(unat (j mod 8) = unat (k mod 8)) = (j = k)"
  proof
    assume "unat (j mod 8) = unat (k mod 8)"
    then have "j mod 8 = k mod 8" by (simp only: word_unat_eq_iff)
    with True show "j = k" by (rule word_div_mod_8_eq)
  next
    assume "j = k"
    then show "unat (j mod 8) = unat (k mod 8)" by simp
  qed
  then show ?thesis using True lt
    by (auto simp: bitmap_bit_def mark_def bit_or_iff bit_exp_iff)
next
  case False
  then have "j \<noteq> k" by auto
  then show ?thesis using False by (simp add: bitmap_bit_def mark_def)
qed

lemma free_blocks_mark:
  "free_blocks (mark m base k) base sb = free_blocks m base sb - {k}"
  by (auto simp: free_blocks_def bitmap_bit_mark)

lemma bitmap_fits_ram [simp]: "bitmap_fits (s\<lparr>ram := m\<rparr>) sb gds = bitmap_fits s sb gds"
  by (simp add: bitmap_fits_def)

lemma mark_frame:
  assumes "k div 8 < n" "n \<le> a - base"
  shows "mark m base k a = m a"
proof -
  have "a \<noteq> base + k div 8" using assms by auto
  then show ?thesis by (simp add: mark_def)
qed

lemma allocate_block_step:
  assumes wf: "bitmap_fits s sb gds"
    and base: "base = device s + block_bitmap (gds ! 0) * block_size s"
    and ne: "free_blocks (ram s) base sb \<noteq> {}"
  shows "\<exists>k. k \<in> free_blocks (ram s) base sb \<and> k div 8 < block_size s
      \<and> ext2_allocate_block s = Inr (k, s\<lparr>ram := mark (ram s) base k\<rparr>)"
proof -
  let ?F = "free_blocks (ram s) base sb"
  define k where "k = Min ?F"
  have fin: "finite ?F" by simp
  have kin: "k \<in> ?F" unfolding k_def using fin ne by (rule Min_in)
  have least: "\<And>x. x \<in> ?F \<Longrightarrow> k \<le> x" unfolding k_def using fin by (rule Min_le)
  from kin have lo: "first_available_block sb \<le> k" and hi: "k < blocks_per_group sb"
    and clr: "\<not> bitmap_bit (ram s) base k"
    by (simp_all add: free_blocks_def)
  have before: "bitmap_bit (ram s) base x"
    if "first_available_block sb \<le> x" "x < k" for x
  proof (rule ccontr)
    assume "\<not> bitmap_bit (ram s) base x"
    then have "x \<in> ?F" using that hi by (simp add: free_blocks_def)
    then have "k \<le> x" by (rule least)
    then show False using that(2) by simp
  qed
  have fit: "unat (blocks_per_group sb) \<le> 8 * unat (block_size s)"
    using wf by (simp add: bitmap_fits_def)
  have inb: "k div 8 < block_size s"
    using hi fit by (simp add: word_less_nat_alt unat_div)
  have "ext2_allocate_block s = Inr (k, s\<lparr>ram := mark (ram s) base k\<rparr>)"
    unfolding base
    using allocate_block_first_free [OF wf lo hi] clr before unfolding base by blast
  then show ?thesis using kin inb by blast
qed

lemma call_allocate_block_Inr:
  "ext2_allocate_block s = Inr (k, s') \<Longrightarrow> call_allocate_block (Inr s) = Inr s'"
  by (simp add: call_allocate_block_def)

lemma allocate_n:
  assumes wf: "bitmap_fits s sb gds"
    and base: "base = device s + block_bitmap (gds ! 0) * block_size s"
  shows "n \<le> card (free_blocks (ram s) base sb) \<Longrightarrow>
     \<exists>m. (call_allocate_block ^^ n) (Inr s) = Inr (s\<lparr>ram := m\<rparr>)
        \<and> free_blocks m base sb \<subseteq> free_blocks (ram s) base sb
        \<and> card (free_blocks (ram s) base sb - free_blocks m base sb) = n
        \<and> (\<forall>a. block_size s \<le> a - base \<longrightarrow> m a = ram s a)"
proof (induction n)
  case 0
  have "s\<lparr>ram := ram s\<rparr> = s" by simp
  then show ?case by (intro exI [of _ "ram s"]) simp
next
  case (Suc n)
  let ?F = "free_blocks (ram s) base sb"
  from Suc obtain m where m: "(call_allocate_block ^^ n) (Inr s) = Inr (s\<lparr>ram := m\<rparr>)"
    and sub: "free_blocks m base sb \<subseteq> ?F"
    and cnt: "card (?F - free_blocks m base sb) = n"
    and frame: "\<forall>a. block_size s \<le> a - base \<longrightarrow> m a = ram s a"
    by auto
  let ?s = "s\<lparr>ram := m\<rparr>" and ?G = "free_blocks m base sb"
  have fin: "finite ?F" by simp
  have "card ?G = card ?F - n"
    using cnt sub fin by (metis card_Diff_subset card_mono diff_diff_cancel finite_subset)
  then have ne: "?G \<noteq> {}" using Suc.prems by auto
  have wf': "bitmap_fits ?s sb gds" using wf by simp
  have base': "base = device ?s + block_bitmap (gds ! 0) * block_size ?s"
    using base by simp
  from allocate_block_step [OF wf' base'] ne
  obtain k where kin: "k \<in> ?G" and inb: "k div 8 < block_size s"
    and al: "ext2_allocate_block ?s = Inr (k, ?s\<lparr>ram := mark m base k\<rparr>)"
    by auto
  let ?m' = "mark m base k"
  have run: "(call_allocate_block ^^ Suc n) (Inr s) = Inr (s\<lparr>ram := ?m'\<rparr>)"
    using m call_allocate_block_Inr [OF al] by simp
  have G': "free_blocks ?m' base sb = ?G - {k}" by (rule free_blocks_mark)
  have sub': "free_blocks ?m' base sb \<subseteq> ?F" using sub G' by auto
  have "?F - free_blocks ?m' base sb = insert k (?F - ?G)"
    using G' kin sub by auto
  moreover have "k \<notin> ?F - ?G" using kin by simp
  ultimately have cnt': "card (?F - free_blocks ?m' base sb) = Suc n"
    using cnt fin by simp
  have frame': "\<forall>a. block_size s \<le> a - base \<longrightarrow> ?m' a = ram s a"
    using frame mark_frame [OF inb] by simp
  from run sub' cnt' frame' show ?case by blast
qed

lemma funpow_6: "(f ^^ 6) x = f (f (f (f (f (f x)))))"
  by (simp add: eval_nat_numeral)

lemma divide_up_nonzero:
  assumes "n \<noteq> 0" "d \<noteq> (0::u32)"
  shows "divide_up n d \<noteq> 0"
proof (cases "n mod d = 0")
  case True
  have "unat n mod unat d = 0" using True by (simp add: word_unat_eq_iff unat_mod)
  moreover have "0 < unat n" "0 < unat d" using assms by (simp_all add: unat_gt_0)
  ultimately have "unat d \<le> unat n" by (metis mod_less neq0_conv not_less)
  then have "0 < unat n div unat d" using \<open>0 < unat d\<close> by (simp add: div_greater_zero_iff)
  then have "n div d \<noteq> 0" by (simp add: word_unat_eq_iff unat_div)
  then show ?thesis using True by (simp add: divide_up_def)
next
  case False
  have "d \<noteq> 1" using False by auto
  then have "2 \<le> unat d" using assms(2) by unat_arith
  then have "unat n div unat d \<le> unat n div 2" by (simp add: div_le_mono2)
  moreover have "unat n < 2 ^ 32" using unsigned_less [of n, where ?'a = nat] by simp
  ultimately have "unat (n div d) + 1 < 2 ^ 32" by (simp add: unat_div)
  then have "unat (n div d + 1) = unat (n div d) + 1"
    using unat_add_lem [of "n div d" 1] by simp
  then have "n div d + 1 \<noteq> 0" by (metis add_is_0 one_neq_zero unat_0)
  then show ?thesis using False by (simp add: divide_up_def)
qed

text \<open>
  C9. Take a buffer that is long enough and carries the signature, with a block
  size exponent below 21, at least one block, block groups whose bitmap fits in
  one block (\<^verbatim>\<open>blocks_per_group \<le> 8 * block_size\<close>), products
  \<^verbatim>\<open>blocks_per_group * num_block_groups\<close> and \<^verbatim>\<open>num_block_groups * 32\<close> that do not wrap,
  and at least six free blocks in the first group from \<^verbatim>\<open>first_available_block\<close> on.
  Then \<^verbatim>\<open>init_ext2\<close> returns, exactly six of the blocks that were free in the bitmap
  on the device are marked allocated there afterwards, none is freed, and no
  byte outside the bitmap block has changed.
\<close>

theorem init_ext2_marks_six_blocks:
  fixes s :: ext2_state and data len :: u32 and EXT2_MAGIC :: u16
  defines "sb \<equiv> read_superblock (ram s) (data + 1024)"
  defines "bs \<equiv> push_bit (unat (sb_block_size sb)) 1024"
  defines "nbg \<equiv> divide_up (blocks_count sb) (blocks_per_group sb)"
  defines "base \<equiv> data + block_bitmap (read_group_descriptor (ram s) (data + 2048)) * bs"
  assumes len: "1024 + sizeof_superblock_t \<le> len"
    and magic: "magic sb = EXT2_MAGIC"
    and expo: "sb_block_size sb < 21"
    and blocks: "blocks_count sb \<noteq> 0" "blocks_per_group sb \<noteq> 0"
    and nowrap: "unat (blocks_per_group sb) * unat nbg < 2 ^ 32" "unat nbg * 32 < 2 ^ 32"
    and fit: "unat (blocks_per_group sb) \<le> 8 * unat bs" "8 * unat bs < 2 ^ 32"
    and free: "6 \<le> card (free_blocks (ram s) base sb)"
  shows "\<exists>s'. init_ext2 EXT2_MAGIC s data len = Inr s'
      \<and> free_blocks (ram s') base sb \<subseteq> free_blocks (ram s) base sb
      \<and> card (free_blocks (ram s) base sb - free_blocks (ram s') base sb) = 6
      \<and> (\<forall>a. bs \<le> a - base \<longrightarrow> ram s' a = ram s a)"
proof -
  let ?gd = "read_group_descriptor (ram s) (data + 2048)"
  let ?s2 = "s\<lparr>device := data, num_block_groups := nbg, block_size := bs,
               superblock := Some sb\<rparr>"
  let ?gds = "parse_group_descriptors ?s2 (data + 2048)"
  let ?s3 = "?s2\<lparr>group_descriptors := Some ?gds\<rparr>"
  have nz: "nbg \<noteq> 0" unfolding nbg_def using blocks by (rule divide_up_nonzero)
  then have pos: "0 < unat nbg" by (simp add: unat_gt_0)
  have ps: "parse_superblock EXT2_MAGIC (s\<lparr>device := data\<rparr>) (data + 1024)
      = Inr (Some sb, s\<lparr>device := data, num_block_groups := nbg, block_size := bs\<rparr>)"
    using magic blocks(2) expo
    by (simp add: parse_superblock_def sb_def [symmetric] bs_def nbg_def Let_def not_le)
  have "unat (nbg * 32) = unat nbg * 32"
    using nowrap(2) unat_mult_lem [of nbg 32] by simp
  then have n: "unat (nbg * sizeof_group_descriptor_t) div 32 = unat nbg"
    by (simp add: sizeof_group_descriptor_t_def)
  have gne: "?gds \<noteq> []" using pos by (simp add: parse_group_descriptors_def n)
  have g0: "?gds ! 0 = ?gd" using pos by (simp add: parse_group_descriptors_def n)
  have init: "init_ext2 EXT2_MAGIC s data len = (call_allocate_block ^^ 6) (Inr ?s3)"
    using len gne
    by (simp add: init_ext2_def ps funpow_6 not_less [symmetric] Let_def)
  have wf: "bitmap_fits ?s3 sb ?gds"
    using fit nowrap(1) nz gne by (simp add: bitmap_fits_def)
  have b: "base = device ?s3 + block_bitmap (?gds ! 0) * block_size ?s3"
    by (simp add: base_def g0)
  from allocate_n [OF wf b, of 6] free
  obtain m where "(call_allocate_block ^^ 6) (Inr ?s3) = Inr (?s3\<lparr>ram := m\<rparr>)"
    and "free_blocks m base sb \<subseteq> free_blocks (ram s) base sb"
    and "card (free_blocks (ram s) base sb - free_blocks m base sb) = 6"
    and "\<forall>a. bs \<le> a - base \<longrightarrow> m a = ram s a"
    by auto
  then show ?thesis unfolding init by (intro exI [of _ "?s3\<lparr>ram := m\<rparr>"]) simp
qed

lemma vol_read_superblock: "read_superblock vol_ram (0x100000 + 1024) = vol_superblock"
  by (simp add: read_superblock_def le32_def le16_def vol_simps vol_superblock_def)

lemma vol_read_bitmap: "block_bitmap (read_group_descriptor vol_ram (0x100000 + 2048)) = 3"
  by (simp add: read_group_descriptor_def le32_def vol_simps)

lemma vol_free: "6 \<le> card (free_blocks vol_ram (0x100000 + 3 * 1024) vol_superblock)"
proof -
  have "{16, 17, 18, 19, 20, 21} \<subseteq> free_blocks vol_ram (0x100000 + 3 * 1024) vol_superblock"
    by (simp add: free_blocks_def bitmap_bit_def vol_simps vol_superblock_def word_eval)
  then have "card {16, 17, 18, 19, 20, 21 :: u32}
      \<le> card (free_blocks vol_ram (0x100000 + 3 * 1024) vol_superblock)"
    by (intro card_mono) simp_all
  then show ?thesis by simp
qed

theorem init_ext2_marks_six_blocks_witness:
  "\<exists>s'. init_ext2 0xEF53 (unmounted\<lparr>ram := vol_ram\<rparr>) 0x100000 65536 = Inr s'
      \<and> free_blocks (ram s') (0x100000 + 3 * 1024) vol_superblock
          \<subseteq> free_blocks vol_ram (0x100000 + 3 * 1024) vol_superblock
      \<and> card (free_blocks vol_ram (0x100000 + 3 * 1024) vol_superblock
               - free_blocks (ram s') (0x100000 + 3 * 1024) vol_superblock) = 6
      \<and> ram s' 0x100000 = vol_ram 0x100000"
proof -
  have r: "ram (unmounted\<lparr>ram := vol_ram\<rparr>) = vol_ram" by simp
  have bs: "push_bit (unat (sb_block_size vol_superblock)) (1024::u32) = 1024"
    by (simp add: vol_superblock_def)
  have h: "1024 + sizeof_superblock_t \<le> (65536::u32)"
    "magic vol_superblock = 0xEF53"
    "sb_block_size vol_superblock < 21"
    "blocks_count vol_superblock \<noteq> 0"
    "blocks_per_group vol_superblock \<noteq> 0"
    "unat (blocks_per_group vol_superblock) * unat (1::u32) < 2 ^ 32"
    "unat (1::u32) * 32 < 2 ^ 32"
    "unat (blocks_per_group vol_superblock) \<le> 8 * unat (1024::u32)"
    "8 * unat (1024::u32) < 2 ^ 32"
    by (simp_all add: sizeof_superblock_t_def vol_superblock_def)
  have groups: "divide_up (blocks_count vol_superblock) (blocks_per_group vol_superblock) = 1"
    by (simp add: divide_up_def vol_superblock_def)
  have far: "(1024::u32) \<le> 0x100000 - (0x100000 + 3 * 1024)" by simp
  note t = init_ext2_marks_six_blocks [where s = "unmounted\<lparr>ram := vol_ram\<rparr>"
      and data = "0x100000" and len = 65536 and EXT2_MAGIC = "0xEF53",
      unfolded r vol_read_superblock vol_read_bitmap bs groups, OF h]
  from t vol_free far show ?thesis by (metis (no_types, lifting))
qed

section \<open>Mount: what a failed mount leaves behind\<close>

lemma le16_blank: "le16 (\<lambda>a. 0) x = 0"
  by (simp add: le16_def)

text \<open>
  C7, as stated, fails: a buffer with a wrong signature, long enough to hold a
  superblock, changes the device pointer (set before the signature is read) and
  the superblock pointer (set to the NULL that \<^verbatim>\<open>parse_superblock\<close> returns).
\<close>

theorem init_ext2_bad_magic_counterexample:
  "init_ext2 0xEF53 mounted_blank 0x100000 4096
     = Inr (mounted_blank\<lparr>device := 0x100000, superblock := None\<rparr>)
   \<and> device (mounted_blank\<lparr>device := 0x100000, superblock := None\<rparr>) \<noteq> device mounted_blank
   \<and> superblock (mounted_blank\<lparr>device := 0x100000, superblock := None\<rparr>)
       \<noteq> superblock mounted_blank"
  by (simp add: init_ext2_def parse_superblock_def read_superblock_def mounted_blank_def
        le16_blank sizeof_superblock_t_def)

text \<open>
  C7, amended: a volume shorter than \<^verbatim>\<open>1024 + sizeof(superblock_t)\<close> leaves the whole
  state as it was. A buffer of at least that length whose signature is not
  \<^verbatim>\<open>EXT2_MAGIC\<close> leaves the block size, the block-group count, the group-descriptor
  array and the memory as they were, sets the device pointer to the buffer and
  the superblock pointer to NULL; no fault occurs on either path.
\<close>

theorem init_ext2_failed_mount:
  "(len < 1024 + sizeof_superblock_t \<longrightarrow> init_ext2 EXT2_MAGIC s data len = Inr s) \<and>
   (1024 + sizeof_superblock_t \<le> len
      \<and> magic (read_superblock (ram s) (data + 1024)) \<noteq> EXT2_MAGIC \<longrightarrow>
    init_ext2 EXT2_MAGIC s data len = Inr (s\<lparr>device := data, superblock := None\<rparr>))"
  by (simp add: init_ext2_def parse_superblock_def Let_def not_less [symmetric])

theorem init_ext2_failed_mount_witness:
  "init_ext2 0xEF53 mounted_blank 0x100000 1259 = Inr mounted_blank \<and>
   init_ext2 0xEF53 mounted_blank 0x100000 1260
     = Inr (mounted_blank\<lparr>device := 0x100000, superblock := None\<rparr>)"
proof -
  have short: "(1259::u32) < 1024 + sizeof_superblock_t"
    by (simp add: sizeof_superblock_t_def)
  have long: "1024 + sizeof_superblock_t \<le> (1260::u32)
      \<and> magic (read_superblock (ram mounted_blank) (0x100000 + 1024)) \<noteq> 0xEF53"
    by (simp add: sizeof_superblock_t_def read_superblock_def mounted_blank_def le16_blank)
  from init_ext2_failed_mount [of 1259 "0xEF53" mounted_blank "0x100000"] short
  have a: "init_ext2 0xEF53 mounted_blank 0x100000 1259 = Inr mounted_blank"
    by blast
  from init_ext2_failed_mount [of 1260 "0xEF53" mounted_blank "0x100000"] long
  have b: "init_ext2 0xEF53 mounted_blank 0x100000 1260
     = Inr (mounted_blank\<lparr>device := 0x100000, superblock := None\<rparr>)"
    by blast
  from a b show ?thesis by simp
qed

end
